theory Spec2Isabelle
  imports Complex_Main "HOL-Library.Sublist"
begin

chapter \<open>The model\<close>

section \<open>JavaScript values used by the server actions\<close>

text \<open>
  Strings are lists of characters; a character stands for one code unit below 256.
  A value of type \<^verbatim>\<open>string | null\<close> is a \<open>string option\<close>.
  Quantities and identifiers are integers: the \<^verbatim>\<open>number\<close> arguments that end
  up in \<^verbatim>\<open>Int\<close> columns are taken to be integral, identifiers are \<^verbatim>\<open>BigInt\<close>s.
  Prices are rationals. Log lines (\<^verbatim>\<open>console.log\<close>, \<^verbatim>\<open>console.error\<close>) have no
  effect on any result and are left out.
\<close>

text \<open>\<^verbatim>\<open>!s\<close> for \<^verbatim>\<open>s: string | null\<close>: null and the empty string are falsy.\<close>

definition falsy :: "string option \<Rightarrow> bool" where
  "falsy s = (case s of None \<Rightarrow> True | Some v \<Rightarrow> v = [])"

text \<open>White space and line terminators that \<^verbatim>\<open>String.prototype.trim\<close> strips
  (those below 256: TAB, LF, VT, FF, CR, SP, NBSP).\<close>

definition isWhiteSpace :: "char \<Rightarrow> bool" where
  "isWhiteSpace c =
     (c \<in> set [CHR 0x09, CHR 0x0A, CHR 0x0B, CHR 0x0C, CHR 0x0D, CHR 0x20, CHR 0xA0])"

definition trim :: "string \<Rightarrow> string" where
  "trim s = rev (dropWhile isWhiteSpace (rev (dropWhile isWhiteSpace s)))"

text \<open>\<^verbatim>\<open>haystack.includes(needle)\<close>: the needle occurs as a contiguous substring.\<close>

fun str_includes :: "string \<Rightarrow> string \<Rightarrow> bool" where
  "str_includes [] needle = (needle = [])"
| "str_includes (c # cs) needle = (prefix needle (c # cs) \<or> str_includes cs needle)"

text \<open>A string between double quotes, as the template literals of the messages write it.\<close>

definition quoted :: "string \<Rightarrow> string" where
  "quoted s = CHR 0x22 # s @ [CHR 0x22]"

text \<open>\<^verbatim>\<open>parts.join(', ')\<close>.\<close>

fun join_comma :: "string list \<Rightarrow> string" where
  "join_comma [] = []"
| "join_comma [x] = x"
| "join_comma (x # y # ys) = x @ '', '' @ join_comma (y # ys)"

subsection \<open>Integers and their decimal text\<close>

definition digit_char :: "nat \<Rightarrow> char" where
  "digit_char n = char_of (48 + n)"

fun nat_toString :: "nat \<Rightarrow> string" where
  "nat_toString n =
     (if n < 10 then [digit_char n] else nat_toString (n div 10) @ [digit_char (n mod 10)])"

declare nat_toString.simps [simp del]

text \<open>\<^verbatim>\<open>x.toString()\<close> and \<^verbatim>\<open>`${x}`\<close> for an integer or a \<^verbatim>\<open>BigInt\<close>.\<close>

definition toString :: "int \<Rightarrow> string" where
  "toString i = (if i < 0 then CHR ''-'' # nat_toString (nat (- i)) else nat_toString (nat i))"

text \<open>The value of a digit in a radix up to 36, as \<^verbatim>\<open>StringToBigInt\<close> reads it.\<close>

definition digitValue :: "char \<Rightarrow> nat option" where
  "digitValue c =
     (let n = (of_char c :: nat) in
      if 48 \<le> n \<and> n \<le> 57 then Some (n - 48)
      else if 97 \<le> n \<and> n \<le> 122 then Some (n - 87)
      else if 65 \<le> n \<and> n \<le> 90 then Some (n - 55)
      else None)"

fun parseDigits :: "nat \<Rightarrow> string \<Rightarrow> nat \<Rightarrow> nat option" where
  "parseDigits radix [] acc = Some acc"
| "parseDigits radix (c # cs) acc =
     (case digitValue c of
        None \<Rightarrow> None
      | Some v \<Rightarrow> if v < radix then parseDigits radix cs (acc * radix + v) else None)"

definition parseRadix :: "nat \<Rightarrow> string \<Rightarrow> nat option" where
  "parseRadix radix s = (if s = [] then None else parseDigits radix s 0)"

definition signedInteger :: "string \<Rightarrow> int option" where
  "signedInteger s =
     (case s of
        [] \<Rightarrow> None
      | c # cs \<Rightarrow>
          if c = CHR ''+'' then map_option int (parseRadix 10 cs)
          else if c = CHR ''-'' then map_option (\<lambda>n. - int n) (parseRadix 10 cs)
          else map_option int (parseRadix 10 s))"

text \<open>
  ECMAScript's \<^verbatim>\<open>StringToBigInt\<close>: the text is trimmed; the empty text is 0; a text with
  prefix \<^verbatim>\<open>0x\<close>, \<^verbatim>\<open>0o\<close> or \<^verbatim>\<open>0b\<close> (either case) is read in that radix, without sign;
  anything else is an optional sign and decimal digits.
\<close>

definition StringToBigInt :: "string \<Rightarrow> int option" where
  "StringToBigInt str =
     (let s = trim str in
      if s = [] then Some 0
      else if take 2 s = ''0x'' \<or> take 2 s = ''0X'' then map_option int (parseRadix 16 (drop 2 s))
      else if take 2 s = ''0o'' \<or> take 2 s = ''0O'' then map_option int (parseRadix 8 (drop 2 s))
      else if take 2 s = ''0b'' \<or> take 2 s = ''0B'' then map_option int (parseRadix 2 (drop 2 s))
      else signedInteger s)"

text \<open>The regular expression \<^verbatim>\<open>/^\d+$/\<close>.\<close>

definition isNumeric :: "string \<Rightarrow> bool" where
  "isNumeric s =
     (s \<noteq> [] \<and> list_all (\<lambda>c. 48 \<le> (of_char c :: nat) \<and> (of_char c :: nat) \<le> 57) s)"

text \<open>
  \<^verbatim>\<open>Number(b)\<close> for a \<^verbatim>\<open>BigInt\<close> \<open>b\<close>: the nearest double, ties to even. A double has
  53 significant bits, so the conversion is exact up to 53 bits and rounds the bits
  below beyond that.
\<close>

fun bitLength :: "nat \<Rightarrow> nat" where
  "bitLength n = (if n = 0 then 0 else Suc (bitLength (n div 2)))"

declare bitLength.simps [simp del]

definition Number :: "int \<Rightarrow> int" where
  "Number b =
     (let a = nat \<bar>b\<bar>; e = bitLength a - 53 in
      if bitLength a \<le> 53 then b
      else
        let m = 2 ^ e; q = a div m; r = a mod m; h = m div 2;
            q' = (if h < r \<or> (r = h \<and> odd q) then q + 1 else q)
        in sgn b * int (q' * m))"

text \<open>
  \<^verbatim>\<open>a + b\<close> and \<^verbatim>\<open>a - b\<close> for two numbers with integral values: the exact result,
  rounded to the nearest double as above. The quantities added are values of integer
  columns and integral arguments, whose sums are finite doubles.
\<close>

definition number_plus :: "int \<Rightarrow> int \<Rightarrow> int" where
  "number_plus a b = Number (a + b)"

definition number_minus :: "int \<Rightarrow> int \<Rightarrow> int" where
  "number_minus a b = Number (a - b)"

section \<open>Exceptions, the environment of a request, and effects\<close>

text \<open>
  Everything thrown is an \<^verbatim>\<open>Error\<close> with its message, or some other value
  (the handlers test \<^verbatim>\<open>error instanceof Error\<close>).
\<close>

datatype exn = Error string | NonError

text \<open>
  The calls a request makes to the outside: the ORM client (model and operation), the
  identity provider, the page cache and the product cache, and the marks of a
  transaction.
\<close>

datatype call =
    Prisma string string
  | Clerk_auth
  | Clerk_currentUser
  | Next_revalidatePath string
  | Cache_invalidateProducts string
  | Transaction_begin
  | Transaction_commit
  | Transaction_rollback

text \<open>
  The environment of one request: what \<^verbatim>\<open>auth()\<close> returns as \<^verbatim>\<open>userId\<close> when it
  returns, the primary email address \<^verbatim>\<open>currentUser()\<close> reports, the clock, an oracle that
  decides, from the calls issued so far, whether the next call throws and what, and an
  oracle that decides which of several rejected promises of a \<^verbatim>\<open>Promise.all\<close> settles
  first.
\<close>

record env =
  auth_userId :: "string option"
  clerk_email :: "string option"
  now :: int
  faults :: "call list \<Rightarrow> call \<Rightarrow> exn option"
  settles_first :: "call list \<Rightarrow> nat"

section \<open>The database\<close>

text \<open>
  One record per table of the schema, with the columns the actions read or write
  (time stamps of creation and update are left out). A table is the list of its rows in
  the order the store returns them, so that \<^verbatim>\<open>findFirst\<close> without an ordering is the
  first matching row of the list.
\<close>

record user =
  user_id :: int
  clerk_id :: string
  email :: string

record organization =
  org_id :: int
  org_name :: string
  created_by :: int

record organizationMember =
  member_org_id :: int
  member_user_id :: int
  role :: string

record organizationInvite =
  invite_org_id :: int
  invite_email :: string
  token :: string
  invite_role :: string
  status :: string
  expires_at :: "int option"

record warehouse =
  warehouse_id :: int
  warehouse_org_id :: int
  warehouse_name :: string
  address :: "string option"

record product =
  product_id :: int
  product_org_id :: int
  product_name :: string
  sku :: string
  description :: "string option"
  image_url :: "string option"
  product_status :: string
  product_created_by :: int
  modified_by :: "int option"

record productStock =
  stock_id :: int
  stock_product_id :: int
  stock_warehouse_id :: int
  quantity :: int

record productPrice =
  price_id :: int
  price_product_id :: int
  retail_price :: rat
  actual_price :: "rat option"
  valid_from :: int
  valid_to :: "int option"

record orderRow =
  order_id :: int
  order_org_id :: int

record orderItem =
  item_order_id :: int
  item_product_id :: int

record stockMovement =
  movement_product_id :: int
  movement_warehouse_id :: int
  movement_type :: string
  movement_quantity :: int
  reason :: string
  movement_notes :: "string option"
  movement_created_by :: int

record db =
  users :: "user list"
  organizations :: "organization list"
  organizationMembers :: "organizationMember list"
  organizationInvites :: "organizationInvite list"
  warehouses :: "warehouse list"
  products :: "product list"
  productStocks :: "productStock list"
  productPrices :: "productPrice list"
  orders :: "orderRow list"
  orderItems :: "orderItem list"
  stockMovements :: "stockMovement list"

text \<open>An auto-incremented key: one more than every key of the table.\<close>

definition nextId :: "int list \<Rightarrow> int" where
  "nextId ids = fold max ids 0 + 1"

text \<open>\<^verbatim>\<open>update\<close> and \<^verbatim>\<open>delete\<close> address one row by a unique key: the first that matches.\<close>

fun update_first :: "('a \<Rightarrow> bool) \<Rightarrow> ('a \<Rightarrow> 'a) \<Rightarrow> 'a list \<Rightarrow> 'a list" where
  "update_first P f [] = []"
| "update_first P f (x # xs) = (if P x then f x # xs else x # update_first P f xs)"

fun delete_first :: "('a \<Rightarrow> bool) \<Rightarrow> 'a list \<Rightarrow> 'a list" where
  "delete_first P [] = []"
| "delete_first P (x # xs) = (if P x then xs else x # delete_first P xs)"

text \<open>The error of \<^verbatim>\<open>update\<close> and \<^verbatim>\<open>delete\<close> when no row has the key.\<close>

definition record_not_found :: exn where
  "record_not_found =
     Error ''An operation failed because it depends on one or more records that were required but not found.''"

section \<open>Effects\<close>

text \<open>
  The state of a request is the database and the calls issued so far. An action maps a
  state to a result (a thrown value, or a returned one) and the state after it.
\<close>

record state =
  tables :: db
  issued :: "call list"

type_synonym 'a action = "state \<Rightarrow> (exn + 'a) \<times> state"

definition ret :: "'a \<Rightarrow> 'a action" where
  "ret x s = (Inr x, s)"

definition throw :: "exn \<Rightarrow> 'a action" where
  "throw e s = (Inl e, s)"

definition bind :: "'a action \<Rightarrow> ('a \<Rightarrow> 'b action) \<Rightarrow> 'b action" where
  "bind m f s = (case m s of (Inl e, s') \<Rightarrow> (Inl e, s') | (Inr x, s') \<Rightarrow> f x s')"

definition try_catch :: "'a action \<Rightarrow> (exn \<Rightarrow> 'a action) \<Rightarrow> 'a action" where
  "try_catch m h s = (case m s of (Inl e, s') \<Rightarrow> h e s' | (Inr x, s') \<Rightarrow> (Inr x, s'))"

text \<open>A computation without effect that returns or throws.\<close>

definition lift :: "exn + 'a \<Rightarrow> 'a action" where
  "lift r s = (r, s)"

text \<open>
  A call to the outside is recorded; the oracle of the environment may make it throw,
  otherwise it does what the call does. Constraint violations, time-outs and lost
  connections are all outcomes of the oracle.
\<close>

definition ext :: "env \<Rightarrow> call \<Rightarrow> 'a action \<Rightarrow> 'a action" where
  "ext env c m s =
     (let s1 = s\<lparr>issued := issued s @ [c]\<rparr> in
      case faults env (issued s) c of Some e \<Rightarrow> (Inl e, s1) | None \<Rightarrow> m s1)"

definition query :: "(db \<Rightarrow> 'a) \<Rightarrow> 'a action" where
  "query f s = (Inr (f (tables s)), s)"

definition exec :: "(db \<Rightarrow> db) \<Rightarrow> unit action" where
  "exec f s = (Inr (), s\<lparr>tables := f (tables s)\<rparr>)"

text \<open>
  \<^verbatim>\<open>prisma.$transaction(async (tx) => ...)\<close>: when the body throws, or the commit does,
  the writes made through \<open>tx\<close> are undone. \<open>undo before after\<close> gives the tables after
  the rollback from those before the transaction and those the body had reached; it is
  \<open>\<lambda>before after. before\<close> when every write of the body goes through \<open>tx\<close>.
\<close>

definition transaction_with :: "(db \<Rightarrow> db \<Rightarrow> db) \<Rightarrow> env \<Rightarrow> 'a action \<Rightarrow> 'a action" where
  "transaction_with undo env body =
     ext env Transaction_begin (\<lambda>s0.
       case body s0 of
         (Inl e, s1) \<Rightarrow>
           (Inl e, s1\<lparr>tables := undo (tables s0) (tables s1),
                       issued := issued s1 @ [Transaction_rollback]\<rparr>)
       | (Inr x, s1) \<Rightarrow>
           (case faults env (issued s1) Transaction_commit of
              Some e \<Rightarrow>
                (Inl e, s1\<lparr>tables := undo (tables s0) (tables s1),
                            issued := issued s1 @ [Transaction_commit]\<rparr>)
            | None \<Rightarrow> (Inr x, s1\<lparr>issued := issued s1 @ [Transaction_commit]\<rparr>)))"

definition transaction :: "env \<Rightarrow> 'a action \<Rightarrow> 'a action" where
  "transaction env body = transaction_with (\<lambda>before after. before) env body"

text \<open>\<^verbatim>\<open>BigInt(text)\<close>: the integer, or the \<^verbatim>\<open>SyntaxError\<close> of the runtime.\<close>

definition BigInt :: "string \<Rightarrow> exn + int" where
  "BigInt str =
     (case StringToBigInt str of
        None \<Rightarrow> Inl (Error (''Cannot convert '' @ str @ '' to a BigInt''))
      | Some b \<Rightarrow> Inr b)"

text \<open>\<^verbatim>\<open>revalidatePath(path)\<close> touches no table.\<close>

definition revalidatePath :: "env \<Rightarrow> string \<Rightarrow> unit action" where
  "revalidatePath env path = ext env (Next_revalidatePath path) (ret ())"

text \<open>\<^verbatim>\<open>auth()\<close> of the identity provider: the \<^verbatim>\<open>userId\<close> of the session, null without
  one; like every call to the outside it may throw.\<close>

definition auth :: "env \<Rightarrow> string option action" where
  "auth env = ext env Clerk_auth (ret (auth_userId env))"

text \<open>
  \<^verbatim>\<open>await Promise.all([p1, p2, p3])\<close>: the three calls are issued, in the order of the
  array, whatever becomes of the others. When none rejects the result is the triple of
  their values; otherwise the \<^verbatim>\<open>await\<close> throws the reason of the promise that rejected
  first, which the environment chooses among the rejections.
\<close>

definition rejection :: "exn + 'a \<Rightarrow> exn list" where
  "rejection r = (case r of Inl e \<Rightarrow> [e] | Inr x \<Rightarrow> [])"

definition promise_all3 ::
  "env \<Rightarrow> 'a action \<Rightarrow> 'b action \<Rightarrow> 'c action \<Rightarrow> ('a \<times> 'b \<times> 'c) action" where
  "promise_all3 env m1 m2 m3 s =
     (case m1 s of (r1, s1) \<Rightarrow>
      case m2 s1 of (r2, s2) \<Rightarrow>
      case m3 s2 of (r3, s3) \<Rightarrow>
        (case (r1, r2, r3) of
           (Inr x1, Inr x2, Inr x3) \<Rightarrow> (Inr (x1, x2, x3), s3)
         | _ \<Rightarrow>
           let rejections = rejection r1 @ rejection r2 @ rejection r3
           in (Inl (rejections ! (settles_first env (issued s3) mod length rejections)), s3)))"

section \<open>lib/auth.ts\<close>

subsection \<open>The queries it makes\<close>

definition user_findUnique :: "env \<Rightarrow> string \<Rightarrow> user option action" where
  "user_findUnique env clerk =
     ext env (Prisma ''user'' ''findUnique'')
       (query (\<lambda>d. find (\<lambda>u. clerk_id u = clerk) (users d)))"

definition currentUser :: "env \<Rightarrow> string option action" where
  "currentUser env = ext env Clerk_currentUser (ret (clerk_email env))"

definition user_create :: "env \<Rightarrow> string \<Rightarrow> string \<Rightarrow> user action" where
  "user_create env clerk mail =
     ext env (Prisma ''user'' ''create'') (\<lambda>s.
       let d = tables s;
           u = \<lparr>user_id = nextId (map user_id (users d)), clerk_id = clerk, email = mail\<rparr>
       in (Inr u, s\<lparr>tables := d\<lparr>users := users d @ [u]\<rparr>\<rparr>))"

definition organization_findFirst ::
  "env \<Rightarrow> (organization \<Rightarrow> bool) \<Rightarrow> organization option action" where
  "organization_findFirst env P =
     ext env (Prisma ''organization'' ''findFirst'') (query (\<lambda>d. find P (organizations d)))"

definition organization_findUnique :: "env \<Rightarrow> int \<Rightarrow> organization option action" where
  "organization_findUnique env bigOrgId =
     ext env (Prisma ''organization'' ''findUnique'')
       (query (\<lambda>d. find (\<lambda>org. org_id org = bigOrgId) (organizations d)))"

definition organization_findMany :: "env \<Rightarrow> nat \<Rightarrow> organization list action" where
  "organization_findMany env n =
     ext env (Prisma ''organization'' ''findMany'') (query (\<lambda>d. take n (organizations d)))"

definition is_member :: "int \<Rightarrow> int \<Rightarrow> organizationMember \<Rightarrow> bool" where
  "is_member bigOrgId uid m = (member_org_id m = bigOrgId \<and> member_user_id m = uid)"

definition organizationMember_findUnique ::
  "env \<Rightarrow> int \<Rightarrow> int \<Rightarrow> organizationMember option action" where
  "organizationMember_findUnique env bigOrgId uid =
     ext env (Prisma ''organizationMember'' ''findUnique'')
       (query (\<lambda>d. find (is_member bigOrgId uid) (organizationMembers d)))"

definition organizationMember_findMany :: "env \<Rightarrow> int \<Rightarrow> organizationMember list action" where
  "organizationMember_findMany env uid =
     ext env (Prisma ''organizationMember'' ''findMany'')
       (query (\<lambda>d. filter (\<lambda>m. member_user_id m = uid) (organizationMembers d)))"

text \<open>
  \<^verbatim>\<open>upsert\<close> on the unique key \<^verbatim>\<open>org_id_user_id\<close>: the row of the pair gets the role when
  there is one, otherwise a row is inserted.
\<close>

definition upsert_member ::
  "int \<Rightarrow> int \<Rightarrow> string \<Rightarrow> organizationMember list \<Rightarrow> organizationMember list" where
  "upsert_member bigOrgId uid r ms =
     (case find (is_member bigOrgId uid) ms of
        Some m \<Rightarrow> update_first (is_member bigOrgId uid) (\<lambda>m. m\<lparr>role := r\<rparr>) ms
      | None \<Rightarrow>
          ms @ [\<lparr>member_org_id = bigOrgId, member_user_id = uid, role = r\<rparr>])"

definition organizationMember_upsert :: "env \<Rightarrow> int \<Rightarrow> int \<Rightarrow> string \<Rightarrow> unit action" where
  "organizationMember_upsert env bigOrgId uid r =
     ext env (Prisma ''organizationMember'' ''upsert'')
       (exec (\<lambda>d. d\<lparr>organizationMembers := upsert_member bigOrgId uid r (organizationMembers d)\<rparr>))"

subsection \<open>getOrCreateUser\<close>

definition getOrCreateUser :: "env \<Rightarrow> string \<Rightarrow> user action" where
  "getOrCreateUser env userId =
     bind (user_findUnique env userId) (\<lambda>user.
       case user of
         Some u \<Rightarrow> ret u
       | None \<Rightarrow>
           bind (currentUser env) (\<lambda>emailAddress.
             if falsy emailAddress then throw (Error ''Unable to get user email from Clerk'')
             else user_create env userId (the emailAddress)))"

subsection \<open>getUserRole\<close>

text \<open>The body of the \<^verbatim>\<open>try\<close> block; \<^verbatim>\<open>member?.role || null\<close> turns an empty role into null.\<close>

definition getUserRole_try :: "env \<Rightarrow> string \<Rightarrow> string \<Rightarrow> string option action" where
  "getUserRole_try env userId orgId =
     bind (lift (BigInt orgId)) (\<lambda>bigOrgId.
     bind (getOrCreateUser env userId) (\<lambda>user.
     bind (organization_findFirst env
             (\<lambda>org. org_id org = bigOrgId \<and> created_by org = user_id user)) (\<lambda>createdOrg.
       case createdOrg of
         Some org \<Rightarrow>
           bind (organizationMember_upsert env bigOrgId (user_id user) ''admin'') (\<lambda>_.
             ret (Some ''admin''))
       | None \<Rightarrow>
           bind (organizationMember_findUnique env bigOrgId (user_id user)) (\<lambda>member.
             ret (case member of
                    None \<Rightarrow> None
                  | Some m \<Rightarrow> if role m = [] then None else Some (role m))))))"

definition getUserRole :: "env \<Rightarrow> string \<Rightarrow> string option action" where
  "getUserRole env orgId =
     bind (auth env) (\<lambda>userId.
       if falsy userId then ret None
       else try_catch (getUserRole_try env (the userId) orgId) (\<lambda>error. ret None))"

subsection \<open>hasPermission\<close>

text \<open>
  The first test rejects a falsy role and the sentinel strings, the second accepts
  \<^verbatim>\<open>'admin'\<close>, the last is \<^verbatim>\<open>requiredRoles.includes(role)\<close>.
\<close>

definition hasPermission :: "string option \<Rightarrow> string list \<Rightarrow> bool" where
  "hasPermission r requiredRoles =
     (if falsy r \<or> r = Some ''null'' \<or> r = Some ''undefined'' \<or> r = Some [] \<or> r = Some ''NULL''
      then False
      else if r = Some ''admin'' then True
      else the r \<in> set requiredRoles)"

subsection \<open>ensureOrganizationMember\<close>

text \<open>
  The inner \<^verbatim>\<open>try\<close> of the conversion: a text that is not all digits after trimming, or
  that \<^verbatim>\<open>BigInt\<close> rejects, gives the error of the inner \<^verbatim>\<open>catch\<close>.
\<close>

definition convertOrgId :: "string \<Rightarrow> exn + int" where
  "convertOrgId orgId =
     (let cleanOrgId = trim orgId in
      case (if \<not> isNumeric cleanOrgId
            then Inl (Error (''Organization ID must be numeric. Received: '' @ quoted cleanOrgId))
            else BigInt cleanOrgId) of
        Inl conversionError \<Rightarrow> Inl (Error (''Invalid organization ID format: '' @ quoted orgId))
      | Inr bigOrgId \<Rightarrow> Inr bigOrgId)"

definition access_denied :: "string \<Rightarrow> string \<Rightarrow> exn" where
  "access_denied name orgId =
     Error (''Access denied. User is not a member of organization '' @ quoted name
            @ '' (ID: '' @ orgId
            @ ''). Please contact an administrator to be added to this organization.'')"

definition ensureOrganizationMember_try :: "env \<Rightarrow> string \<Rightarrow> string \<Rightarrow> unit action" where
  "ensureOrganizationMember_try env userId orgId =
     (if orgId = [] \<or> trim orgId = [] \<or> orgId = ''undefined'' \<or> orgId = ''null''
      then throw (Error (''Invalid organization ID provided: '' @ quoted orgId))
      else
        bind (lift (convertOrgId orgId)) (\<lambda>bigOrgId.
        bind (getOrCreateUser env userId) (\<lambda>user.
        bind (organization_findUnique env bigOrgId) (\<lambda>orgCheck.
          case orgCheck of
            None \<Rightarrow>
              bind (organization_findMany env 10) (\<lambda>allOrgs.
                throw (Error (''Organization with ID '' @ quoted orgId
                              @ '' not found. Please verify the organization ID.'')))
          | Some org \<Rightarrow>
              let isCreator = (toString (created_by org) = toString (user_id user)) in
              transaction env
                (if isCreator
                 then organizationMember_upsert env bigOrgId (user_id user) ''admin''
                 else
                   bind (organizationMember_findUnique env bigOrgId (user_id user))
                     (\<lambda>existingMember.
                       case existingMember of
                         None \<Rightarrow>
                           bind (organizationMember_findMany env (user_id user))
                             (\<lambda>userMemberships. throw (access_denied (org_name org) orgId))
                       | Some m \<Rightarrow> ret ()))))))"

definition ensureOrganizationMember :: "env \<Rightarrow> string \<Rightarrow> unit action" where
  "ensureOrganizationMember env orgId =
     bind (auth env) (\<lambda>userId.
       if falsy userId then throw (Error ''Authentication required'')
       else
         try_catch (ensureOrganizationMember_try env (the userId) orgId)
           (\<lambda>error. case error of
              Error message \<Rightarrow> throw error
            | NonError \<Rightarrow>
                throw (Error ''An unexpected error occurred while validating organization membership'')))"

section \<open>app/organization/actions.ts\<close>

subsection \<open>The queries of deleteOrganization\<close>

definition warehouse_count :: "env \<Rightarrow> int \<Rightarrow> nat action" where
  "warehouse_count env bigOrgId =
     ext env (Prisma ''warehouse'' ''count'')
       (query (\<lambda>d. length (filter (\<lambda>w. warehouse_org_id w = bigOrgId) (warehouses d))))"

definition product_count :: "env \<Rightarrow> int \<Rightarrow> nat action" where
  "product_count env bigOrgId =
     ext env (Prisma ''product'' ''count'')
       (query (\<lambda>d. length (filter (\<lambda>p. product_org_id p = bigOrgId) (products d))))"

definition order_count :: "env \<Rightarrow> int \<Rightarrow> nat action" where
  "order_count env bigOrgId =
     ext env (Prisma ''order'' ''count'')
       (query (\<lambda>d. length (filter (\<lambda>ord. order_org_id ord = bigOrgId) (orders d))))"

text \<open>The relation filters \<^verbatim>\<open>order: { org_id }\<close> and \<^verbatim>\<open>product: { org_id }\<close>: the row's
  order, or product, is one of the organization.\<close>

definition order_in_org :: "db \<Rightarrow> int \<Rightarrow> int \<Rightarrow> bool" where
  "order_in_org d bigOrgId oid =
     (case find (\<lambda>ord. order_id ord = oid) (orders d) of
        None \<Rightarrow> False
      | Some ord \<Rightarrow> order_org_id ord = bigOrgId)"

definition product_in_org :: "db \<Rightarrow> int \<Rightarrow> int \<Rightarrow> bool" where
  "product_in_org d bigOrgId pid =
     (case find (\<lambda>p. product_id p = pid) (products d) of
        None \<Rightarrow> False
      | Some p \<Rightarrow> product_org_id p = bigOrgId)"

definition orderItem_deleteMany :: "env \<Rightarrow> int \<Rightarrow> unit action" where
  "orderItem_deleteMany env bigOrgId =
     ext env (Prisma ''orderItem'' ''deleteMany'')
       (exec (\<lambda>d. d\<lparr>orderItems :=
          filter (\<lambda>i. \<not> order_in_org d bigOrgId (item_order_id i)) (orderItems d)\<rparr>))"

definition order_deleteMany :: "env \<Rightarrow> int \<Rightarrow> unit action" where
  "order_deleteMany env bigOrgId =
     ext env (Prisma ''order'' ''deleteMany'')
       (exec (\<lambda>d. d\<lparr>orders := filter (\<lambda>ord. order_org_id ord \<noteq> bigOrgId) (orders d)\<rparr>))"

definition productPrice_deleteMany :: "env \<Rightarrow> int \<Rightarrow> unit action" where
  "productPrice_deleteMany env bigOrgId =
     ext env (Prisma ''productPrice'' ''deleteMany'')
       (exec (\<lambda>d. d\<lparr>productPrices :=
          filter (\<lambda>p. \<not> product_in_org d bigOrgId (price_product_id p)) (productPrices d)\<rparr>))"

definition productStock_deleteMany :: "env \<Rightarrow> int \<Rightarrow> unit action" where
  "productStock_deleteMany env bigOrgId =
     ext env (Prisma ''productStock'' ''deleteMany'')
       (exec (\<lambda>d. d\<lparr>productStocks :=
          filter (\<lambda>s. \<not> product_in_org d bigOrgId (stock_product_id s)) (productStocks d)\<rparr>))"

definition product_deleteMany :: "env \<Rightarrow> int \<Rightarrow> unit action" where
  "product_deleteMany env bigOrgId =
     ext env (Prisma ''product'' ''deleteMany'')
       (exec (\<lambda>d. d\<lparr>products := filter (\<lambda>p. product_org_id p \<noteq> bigOrgId) (products d)\<rparr>))"

definition warehouse_deleteMany :: "env \<Rightarrow> int \<Rightarrow> unit action" where
  "warehouse_deleteMany env bigOrgId =
     ext env (Prisma ''warehouse'' ''deleteMany'')
       (exec (\<lambda>d. d\<lparr>warehouses := filter (\<lambda>w. warehouse_org_id w \<noteq> bigOrgId) (warehouses d)\<rparr>))"

definition organizationInvite_deleteMany :: "env \<Rightarrow> int \<Rightarrow> unit action" where
  "organizationInvite_deleteMany env bigOrgId =
     ext env (Prisma ''organizationInvite'' ''deleteMany'')
       (exec (\<lambda>d. d\<lparr>organizationInvites :=
          filter (\<lambda>i. invite_org_id i \<noteq> bigOrgId) (organizationInvites d)\<rparr>))"

definition organizationMember_deleteMany :: "env \<Rightarrow> int \<Rightarrow> unit action" where
  "organizationMember_deleteMany env bigOrgId =
     ext env (Prisma ''organizationMember'' ''deleteMany'')
       (exec (\<lambda>d. d\<lparr>organizationMembers :=
          filter (\<lambda>m. member_org_id m \<noteq> bigOrgId) (organizationMembers d)\<rparr>))"

text \<open>\<^verbatim>\<open>organization.delete\<close> returns the deleted row's name, and throws when there is no
  such row.\<close>

definition organization_delete :: "env \<Rightarrow> int \<Rightarrow> string action" where
  "organization_delete env bigOrgId =
     ext env (Prisma ''organization'' ''delete'') (\<lambda>s.
       case find (\<lambda>org. org_id org = bigOrgId) (organizations (tables s)) of
         None \<Rightarrow> (Inl record_not_found, s)
       | Some org \<Rightarrow>
           (Inr (org_name org),
            s\<lparr>tables := (tables s)\<lparr>organizations :=
                 delete_first (\<lambda>org. org_id org = bigOrgId) (organizations (tables s))\<rparr>\<rparr>))"

subsection \<open>deleteOrganization\<close>

text \<open>\<^verbatim>\<open>`${n} warehouse${n === 1 ? '' : 's'}`\<close>, and the message of the refusal.\<close>

definition counted :: "nat \<Rightarrow> string \<Rightarrow> string" where
  "counted n noun = toString (int n) @ '' '' @ noun @ (if n = 1 then [] else ''s'')"

definition dataDetails :: "nat \<Rightarrow> nat \<Rightarrow> nat \<Rightarrow> string list" where
  "dataDetails warehouseCount productCount orderCount =
     (if warehouseCount > 0 then [counted warehouseCount ''warehouse''] else [])
     @ (if productCount > 0 then [counted productCount ''product''] else [])
     @ (if orderCount > 0 then [counted orderCount ''order''] else [])"

definition cannot_delete :: "nat \<Rightarrow> nat \<Rightarrow> nat \<Rightarrow> exn" where
  "cannot_delete warehouseCount productCount orderCount =
     Error (''Cannot delete organization. It contains: ''
            @ join_comma (dataDetails warehouseCount productCount orderCount) @ ''. ''
            @ ''To delete this organization and all its data permanently, use the force delete option. ''
            @ ''This action cannot be undone.'')"

text \<open>The body of the transaction: the six statements of the forced deletion when there
  is dependent data and \<open>force\<close> is set, then the three that every deletion runs.\<close>

definition deleteOrganization_tx :: "env \<Rightarrow> int \<Rightarrow> bool \<Rightarrow> nat \<Rightarrow> nat \<Rightarrow> nat \<Rightarrow> string action" where
  "deleteOrganization_tx env bigOrgId force warehouseCount productCount orderCount =
     bind (if force \<and> (warehouseCount > 0 \<or> productCount > 0 \<or> orderCount > 0)
           then
             bind (orderItem_deleteMany env bigOrgId) (\<lambda>_.
             bind (order_deleteMany env bigOrgId) (\<lambda>_.
             bind (productPrice_deleteMany env bigOrgId) (\<lambda>_.
             bind (productStock_deleteMany env bigOrgId) (\<lambda>_.
             bind (product_deleteMany env bigOrgId) (\<lambda>_.
             warehouse_deleteMany env bigOrgId)))))
           else ret ()) (\<lambda>_.
     bind (organizationInvite_deleteMany env bigOrgId) (\<lambda>_.
     bind (organizationMember_deleteMany env bigOrgId) (\<lambda>_.
     organization_delete env bigOrgId)))"

text \<open>The body of the \<^verbatim>\<open>try\<close> block. The counts are \<^verbatim>\<open>number\<close>s.\<close>

definition deleteOrganization_try :: "env \<Rightarrow> string \<Rightarrow> bool \<Rightarrow> string action" where
  "deleteOrganization_try env orgId force =
     bind (lift (BigInt orgId)) (\<lambda>bigOrgId.
     bind (ensureOrganizationMember env orgId) (\<lambda>_.
     bind (getUserRole env orgId) (\<lambda>r.
       if \<not> hasPermission r [''admin'']
       then throw (Error ''Only admins can delete organizations'')
       else
         bind (promise_all3 env (warehouse_count env bigOrgId) (product_count env bigOrgId)
                 (order_count env bigOrgId)) (\<lambda>(warehouseCount, productCount, orderCount).
           if (warehouseCount > 0 \<or> productCount > 0 \<or> orderCount > 0) \<and> \<not> force
           then throw (cannot_delete warehouseCount productCount orderCount)
           else
             bind (transaction env
                     (deleteOrganization_tx env bigOrgId force
                        warehouseCount productCount orderCount)) (\<lambda>_.
             bind (revalidatePath env ''/organization'') (\<lambda>_.
             bind (revalidatePath env ''/dashboard'') (\<lambda>_.
             bind (revalidatePath env ''/inventory'') (\<lambda>_.
               ret (if force
                    then ''Organization and all its data have been permanently deleted''
                    else ''Organization deleted successfully'')))))))))"

definition deleteOrganization_catch :: "exn \<Rightarrow> string action" where
  "deleteOrganization_catch error =
     (case error of
        Error message \<Rightarrow>
          if str_includes message ''Cannot convert'' \<and> str_includes message ''BigInt''
          then throw (Error ''Invalid organization ID format'')
          else if str_includes message ''Foreign key constraint''
          then throw (Error ''Cannot delete organization due to data dependencies. Please use force delete.'')
          else throw error
      | NonError \<Rightarrow> throw (Error ''Failed to delete organization. Please try again.''))"

text \<open>The action returns \<^verbatim>\<open>{ success: true, message }\<close>; the model returns the message.\<close>

definition deleteOrganization :: "env \<Rightarrow> string \<Rightarrow> bool \<Rightarrow> string action" where
  "deleteOrganization env orgId force =
     bind (auth env) (\<lambda>userId.
       if falsy userId then throw (Error ''Unauthorized'')
       else if orgId = [] then throw (Error ''Organization ID is required'')
       else try_catch (deleteOrganization_try env orgId force) deleteOrganization_catch)"

subsection \<open>acceptInvite\<close>

definition organizationInvite_findUnique :: "env \<Rightarrow> string \<Rightarrow> organizationInvite option action" where
  "organizationInvite_findUnique env tok =
     ext env (Prisma ''organizationInvite'' ''findUnique'')
       (query (\<lambda>d. find (\<lambda>i. token i = tok) (organizationInvites d)))"

definition organizationMember_create :: "env \<Rightarrow> int \<Rightarrow> int \<Rightarrow> string \<Rightarrow> unit action" where
  "organizationMember_create env bigOrgId uid r =
     ext env (Prisma ''organizationMember'' ''create'')
       (exec (\<lambda>d. d\<lparr>organizationMembers := organizationMembers d
          @ [\<lparr>member_org_id = bigOrgId, member_user_id = uid, role = r\<rparr>]\<rparr>))"

definition organizationInvite_update :: "env \<Rightarrow> string \<Rightarrow> string \<Rightarrow> unit action" where
  "organizationInvite_update env tok st =
     ext env (Prisma ''organizationInvite'' ''update'') (\<lambda>s.
       case find (\<lambda>i. token i = tok) (organizationInvites (tables s)) of
         None \<Rightarrow> (Inl record_not_found, s)
       | Some i \<Rightarrow>
           (Inr (),
            s\<lparr>tables := (tables s)\<lparr>organizationInvites :=
                 update_first (\<lambda>i. token i = tok) (\<lambda>i. i\<lparr>status := st\<rparr>)
                   (organizationInvites (tables s))\<rparr>\<rparr>))"

text \<open>The body of the \<^verbatim>\<open>try\<close> block. An expiry date is a time in milliseconds;
  \<^verbatim>\<open>!invite.expires_at\<close> holds for a null date only.\<close>

definition acceptInvite_try :: "env \<Rightarrow> string \<Rightarrow> string \<Rightarrow> string action" where
  "acceptInvite_try env userId tok =
     bind (organizationInvite_findUnique env (trim tok)) (\<lambda>invite.
       if invite = None \<or> status (the invite) \<noteq> ''pending''
       then throw (Error ''Invalid invitation'')
       else if expires_at (the invite) = None \<or> the (expires_at (the invite)) < now env
       then throw (Error ''Invitation has expired'')
       else
         bind (getOrCreateUser env userId) (\<lambda>user.
           if invite_email (the invite) \<noteq> email user
           then throw (Error ''Email mismatch - invitation not for this user'')
           else
             bind (organizationMember_findUnique env (invite_org_id (the invite)) (user_id user))
               (\<lambda>existingMember.
                 if existingMember \<noteq> None
                 then throw (Error ''User is already a member of this organization'')
                 else
                   bind (transaction env
                           (bind (organizationMember_create env (invite_org_id (the invite))
                                    (user_id user) (invite_role (the invite))) (\<lambda>_.
                            bind (organizationInvite_update env (trim tok) ''accepted'') (\<lambda>_.
                              ret (toString (invite_org_id (the invite)))))))
                     (\<lambda>orgId.
                       bind (revalidatePath env ''/organization'') (\<lambda>_. ret orgId)))))"

definition acceptInvite :: "env \<Rightarrow> string \<Rightarrow> string action" where
  "acceptInvite env tok =
     bind (auth env) (\<lambda>userId.
       if falsy userId then throw (Error ''Unauthorized'')
       else if trim tok = [] then throw (Error ''Invalid invitation token'')
       else
         try_catch (acceptInvite_try env (the userId) tok)
           (\<lambda>error. case error of
              Error message \<Rightarrow> throw error
            | NonError \<Rightarrow> throw (Error ''Failed to accept invitation. Please try again.'')))"

section \<open>app/inventory/actions.ts\<close>

subsection \<open>The queries it makes\<close>

definition invalidateProducts :: "env \<Rightarrow> string \<Rightarrow> unit action" where
  "invalidateProducts env orgId = ext env (Cache_invalidateProducts orgId) (ret ())"

definition warehouse_findFirst :: "env \<Rightarrow> int \<Rightarrow> warehouse option action" where
  "warehouse_findFirst env org =
     ext env (Prisma ''warehouse'' ''findFirst'')
       (query (\<lambda>d. find (\<lambda>w. warehouse_org_id w = org) (warehouses d)))"

definition warehouse_create :: "env \<Rightarrow> int \<Rightarrow> string \<Rightarrow> string option \<Rightarrow> warehouse action" where
  "warehouse_create env org name addr =
     ext env (Prisma ''warehouse'' ''create'') (\<lambda>s.
       let d = tables s;
           w = \<lparr>warehouse_id = nextId (map warehouse_id (warehouses d)), warehouse_org_id = org,
                warehouse_name = name, address = addr\<rparr>
       in (Inr w, s\<lparr>tables := d\<lparr>warehouses := warehouses d @ [w]\<rparr>\<rparr>))"

definition is_stock :: "int \<Rightarrow> int \<Rightarrow> productStock \<Rightarrow> bool" where
  "is_stock pid wid s = (stock_product_id s = pid \<and> stock_warehouse_id s = wid)"

definition productStock_findFirst :: "env \<Rightarrow> int \<Rightarrow> int \<Rightarrow> productStock option action" where
  "productStock_findFirst env pid wid =
     ext env (Prisma ''productStock'' ''findFirst'')
       (query (\<lambda>d. find (is_stock pid wid) (productStocks d)))"

definition productStock_update :: "env \<Rightarrow> int \<Rightarrow> int \<Rightarrow> unit action" where
  "productStock_update env sid q =
     ext env (Prisma ''productStock'' ''update'') (\<lambda>s.
       case find (\<lambda>r. stock_id r = sid) (productStocks (tables s)) of
         None \<Rightarrow> (Inl record_not_found, s)
       | Some r \<Rightarrow>
           (Inr (),
            s\<lparr>tables := (tables s)\<lparr>productStocks :=
                 update_first (\<lambda>r. stock_id r = sid) (\<lambda>r. r\<lparr>quantity := q\<rparr>)
                   (productStocks (tables s))\<rparr>\<rparr>))"

definition productStock_create :: "env \<Rightarrow> int \<Rightarrow> int \<Rightarrow> int \<Rightarrow> productStock action" where
  "productStock_create env pid wid q =
     ext env (Prisma ''productStock'' ''create'') (\<lambda>s.
       let d = tables s;
           r = \<lparr>stock_id = nextId (map stock_id (productStocks d)), stock_product_id = pid,
                stock_warehouse_id = wid, quantity = q\<rparr>
       in (Inr r, s\<lparr>tables := d\<lparr>productStocks := productStocks d @ [r]\<rparr>\<rparr>))"

definition stockMovement_create :: "env \<Rightarrow> stockMovement \<Rightarrow> unit action" where
  "stockMovement_create env m =
     ext env (Prisma ''stockMovement'' ''create'')
       (exec (\<lambda>d. d\<lparr>stockMovements := stockMovements d @ [m]\<rparr>))"

definition stockMovement_createMany :: "env \<Rightarrow> stockMovement list \<Rightarrow> unit action" where
  "stockMovement_createMany env ms =
     ext env (Prisma ''stockMovement'' ''createMany'')
       (exec (\<lambda>d. d\<lparr>stockMovements := stockMovements d @ ms\<rparr>))"

definition product_findFirst :: "env \<Rightarrow> (product \<Rightarrow> bool) \<Rightarrow> product option action" where
  "product_findFirst env P =
     ext env (Prisma ''product'' ''findFirst'') (query (\<lambda>d. find P (products d)))"

definition product_create ::
  "env \<Rightarrow> int \<Rightarrow> string \<Rightarrow> string \<Rightarrow> string option \<Rightarrow> string option \<Rightarrow> int \<Rightarrow> product action" where
  "product_create env org name sk descr img uid =
     ext env (Prisma ''product'' ''create'') (\<lambda>s.
       let d = tables s;
           p = \<lparr>product_id = nextId (map product_id (products d)), product_org_id = org,
                product_name = name, sku = sk, description = descr, image_url = img,
                product_status = ''active'', product_created_by = uid, modified_by = None\<rparr>
       in (Inr p, s\<lparr>tables := d\<lparr>products := products d @ [p]\<rparr>\<rparr>))"

definition product_update ::
  "env \<Rightarrow> (product \<Rightarrow> bool) \<Rightarrow> (product \<Rightarrow> product) \<Rightarrow> product action" where
  "product_update env P f =
     ext env (Prisma ''product'' ''update'') (\<lambda>s.
       case find P (products (tables s)) of
         None \<Rightarrow> (Inl record_not_found, s)
       | Some p \<Rightarrow>
           (Inr (f p),
            s\<lparr>tables := (tables s)\<lparr>products := update_first P f (products (tables s))\<rparr>\<rparr>))"

text \<open>\<^verbatim>\<open>findFirst\<close> with \<^verbatim>\<open>orderBy: { valid_from: 'desc' }\<close>: a row of the product with the
  greatest start date, the first of them in the table.\<close>

definition latest :: "productPrice list \<Rightarrow> productPrice option" where
  "latest rows =
     (case rows of
        [] \<Rightarrow> None
      | r # rs \<Rightarrow> Some (fold (\<lambda>x best. if valid_from best < valid_from x then x else best) rs r))"

definition productPrice_findFirst :: "env \<Rightarrow> int \<Rightarrow> productPrice option action" where
  "productPrice_findFirst env pid =
     ext env (Prisma ''productPrice'' ''findFirst'')
       (query (\<lambda>d. latest (filter (\<lambda>p. price_product_id p = pid) (productPrices d))))"

definition productPrice_update :: "env \<Rightarrow> int \<Rightarrow> rat \<Rightarrow> unit action" where
  "productPrice_update env prid price =
     ext env (Prisma ''productPrice'' ''update'') (\<lambda>s.
       case find (\<lambda>p. price_id p = prid) (productPrices (tables s)) of
         None \<Rightarrow> (Inl record_not_found, s)
       | Some p \<Rightarrow>
           (Inr (),
            s\<lparr>tables := (tables s)\<lparr>productPrices :=
                 update_first (\<lambda>p. price_id p = prid) (\<lambda>p. p\<lparr>retail_price := price\<rparr>)
                   (productPrices (tables s))\<rparr>\<rparr>))"

definition productPrice_create ::
  "env \<Rightarrow> int \<Rightarrow> rat \<Rightarrow> rat option \<Rightarrow> int \<Rightarrow> productPrice action" where
  "productPrice_create env pid price actual t =
     ext env (Prisma ''productPrice'' ''create'') (\<lambda>s.
       let d = tables s;
           p = \<lparr>price_id = nextId (map price_id (productPrices d)), price_product_id = pid,
                retail_price = price, actual_price = actual, valid_from = t, valid_to = None\<rparr>
       in (Inr p, s\<lparr>tables := d\<lparr>productPrices := productPrices d @ [p]\<rparr>\<rparr>))"

subsection \<open>getOrCreateDefaultWarehouse\<close>

text \<open>Both queries go through the global client, not through \<open>tx\<close>, and take
  \<^verbatim>\<open>Number(orgId)\<close> as the organization.\<close>

definition getOrCreateDefaultWarehouse :: "env \<Rightarrow> int \<Rightarrow> warehouse action" where
  "getOrCreateDefaultWarehouse env orgId =
     bind (warehouse_findFirst env (Number orgId)) (\<lambda>found.
       case found of
         Some w \<Rightarrow> ret w
       | None \<Rightarrow>
           warehouse_create env (Number orgId) ''Default Warehouse'' (Some ''Default Address''))"

text \<open>A transaction whose body calls \<open>getOrCreateDefaultWarehouse\<close>: the warehouse it
  may have created stays after a rollback, every other write is undone.\<close>

definition transaction_global_warehouse :: "env \<Rightarrow> 'a action \<Rightarrow> 'a action" where
  "transaction_global_warehouse env body =
     transaction_with (\<lambda>before after. before\<lparr>warehouses := warehouses after\<rparr>) env body"

subsection \<open>The product data of a request\<close>

text \<open>\<^verbatim>\<open>Omit<Product, 'id' | 'createdAt' | 'updatedAt'>\<close>; a number that is missing at run
  time is \<open>None\<close>.\<close>

record productInput =
  in_name :: string
  in_sku :: string
  in_description :: "string option"
  in_stock :: "int option"
  in_price :: "rat option"
  in_image :: "string option"

record productResult =
  result_productId :: string
  result_name :: string
  result_sku :: string
  result_stock :: int
  result_price :: rat
  result_warehouseId :: string
  result_warehouseName :: string

text \<open>\<^verbatim>\<open>Math.max(0, n || 0)\<close>, \<^verbatim>\<open>s?.trim() || null\<close> and \<^verbatim>\<open>s?.trim() ?? null\<close>.\<close>

definition clamp_int :: "int option \<Rightarrow> int" where
  "clamp_int n = max 0 (case n of None \<Rightarrow> 0 | Some v \<Rightarrow> v)"

definition clamp_rat :: "rat option \<Rightarrow> rat" where
  "clamp_rat n = max 0 (case n of None \<Rightarrow> 0 | Some v \<Rightarrow> v)"

definition trim_or_null :: "string option \<Rightarrow> string option" where
  "trim_or_null s =
     (case s of None \<Rightarrow> None | Some v \<Rightarrow> if trim v = [] then None else Some (trim v))"

definition role_text :: "string option \<Rightarrow> string" where
  "role_text r = (case r of None \<Rightarrow> ''null'' | Some v \<Rightarrow> v)"

text \<open>The handler of \<open>addProduct\<close> and \<open>updateProduct\<close>, with the message for a text that
  is no \<^verbatim>\<open>BigInt\<close> and the fallback for a value that is no \<^verbatim>\<open>Error\<close>.\<close>

definition product_catch :: "string \<Rightarrow> string \<Rightarrow> exn \<Rightarrow> 'a action" where
  "product_catch invalid_id fallback error =
     (case error of
        Error message \<Rightarrow>
          if str_includes message ''Cannot convert'' \<and> str_includes message ''BigInt''
          then throw (Error invalid_id)
          else if str_includes message ''Unique constraint''
          then throw (Error ''A product with this SKU already exists in the organization'')
          else if str_includes message ''Foreign key constraint''
          then throw (Error ''Invalid organization or user reference'')
          else if str_includes message ''timeout''
          then throw (Error ''Operation timed out. Please try again.'')
          else throw error
      | NonError \<Rightarrow> throw (Error fallback))"

subsection \<open>addProduct\<close>

definition addProduct_tx ::
  "env \<Rightarrow> int \<Rightarrow> user \<Rightarrow> string \<Rightarrow> string \<Rightarrow> string option \<Rightarrow> string option \<Rightarrow> int \<Rightarrow> rat
   \<Rightarrow> productResult action" where
  "addProduct_tx env bigOrgId usr trimmedName trimmedSku descr imageUrl stockQuantity retailPrice =
     bind (product_create env bigOrgId trimmedName trimmedSku descr imageUrl (user_id usr))
       (\<lambda>product.
     bind (getOrCreateDefaultWarehouse env bigOrgId) (\<lambda>warehouse.
     bind (productStock_create env (product_id product) (warehouse_id warehouse) stockQuantity)
       (\<lambda>stockRecord.
     bind (productPrice_create env (product_id product) retailPrice (Some retailPrice) (now env))
       (\<lambda>priceRecord.
       ret \<lparr>result_productId = toString (product_id product), result_name = product_name product,
            result_sku = sku product, result_stock = quantity stockRecord,
            result_price = retail_price priceRecord,
            result_warehouseId = toString (warehouse_id warehouse),
            result_warehouseName = warehouse_name warehouse\<rparr>))))"

definition addProduct_try :: "env \<Rightarrow> string \<Rightarrow> string \<Rightarrow> productInput \<Rightarrow> productResult action" where
  "addProduct_try env userId orgId newProduct =
     bind (lift (BigInt orgId)) (\<lambda>bigOrgId.
     bind (ensureOrganizationMember env orgId) (\<lambda>_.
     bind (getUserRole env orgId) (\<lambda>r.
       if falsy r \<or> \<not> hasPermission r [''writer'', ''read-write'', ''admin'']
       then throw (Error (''Insufficient permissions to add products. Current role: ''
                          @ quoted (role_text r)))
       else
         bind (getOrCreateUser env userId) (\<lambda>usr.
           let trimmedSku = trim (in_sku newProduct);
               trimmedName = trim (in_name newProduct);
               imageUrl = trim_or_null (in_image newProduct);
               stockQuantity = clamp_int (in_stock newProduct);
               retailPrice = clamp_rat (in_price newProduct)
           in
           bind (product_findFirst env
                   (\<lambda>p. sku p = trimmedSku \<and> product_org_id p = bigOrgId)) (\<lambda>existingProduct.
             if existingProduct \<noteq> None
             then throw (Error (''A product with SKU '' @ quoted trimmedSku
                                @ '' already exists in this organization''))
             else if stockQuantity < 0 then throw (Error ''Stock quantity cannot be negative'')
             else if retailPrice < 0 then throw (Error ''Product price cannot be negative'')
             else
               bind (transaction_global_warehouse env
                       (addProduct_tx env bigOrgId usr trimmedName trimmedSku
                          (map_option trim (in_description newProduct)) imageUrl
                          stockQuantity retailPrice)) (\<lambda>result.
               bind (invalidateProducts env orgId) (\<lambda>_.
               bind (revalidatePath env ''/inventory'') (\<lambda>_.
               bind (revalidatePath env ''/dashboard'') (\<lambda>_.
               bind (revalidatePath env (''/inventory/'' @ orgId)) (\<lambda>_.
                 ret result))))))))))"

text \<open>The action returns \<^verbatim>\<open>{ success: true, productId, data: result, message }\<close>; the model
  returns \<open>result\<close>.\<close>

definition addProduct :: "env \<Rightarrow> string \<Rightarrow> productInput \<Rightarrow> productResult action" where
  "addProduct env orgId newProduct =
     bind (auth env) (\<lambda>userId.
      if falsy userId then throw (Error ''Unauthorized'')
      else if orgId = [] then throw (Error ''Organization ID is required'')
      else if trim (in_name newProduct) = [] then throw (Error ''Product name is required'')
      else if trim (in_sku newProduct) = [] then throw (Error ''Product SKU is required'')
      else
        try_catch (addProduct_try env (the userId) orgId newProduct)
          (product_catch ''Invalid organization ID format''
             ''Failed to add product. Please try again.''))"

subsection \<open>updateProduct\<close>

definition upsert_stock :: "env \<Rightarrow> int \<Rightarrow> int \<Rightarrow> int \<Rightarrow> unit action" where
  "upsert_stock env pid wid q =
     bind (productStock_findFirst env pid wid) (\<lambda>existingStock.
       case existingStock of
         Some r \<Rightarrow> productStock_update env (stock_id r) q
       | None \<Rightarrow> bind (productStock_create env pid wid q) (\<lambda>newStock. ret ()))"

definition updateProduct_tx ::
  "env \<Rightarrow> int \<Rightarrow> int \<Rightarrow> user \<Rightarrow> string \<Rightarrow> string \<Rightarrow> string option \<Rightarrow> string option \<Rightarrow> int \<Rightarrow> rat
   \<Rightarrow> productResult action" where
  "updateProduct_tx env bigOrgId pid usr trimmedName trimmedSku descr imageUrl stockQuantity retailPrice =
     bind (product_update env (\<lambda>p. product_id p = pid)
             (\<lambda>p. p\<lparr>product_name := trimmedName, sku := trimmedSku, description := descr,
                     image_url := imageUrl, modified_by := Some (user_id usr)\<rparr>)) (\<lambda>_.
     bind (getOrCreateDefaultWarehouse env bigOrgId) (\<lambda>warehouse.
     bind (upsert_stock env pid (warehouse_id warehouse) stockQuantity) (\<lambda>_.
     bind (productPrice_findFirst env pid) (\<lambda>latestPrice.
     bind (case latestPrice of
             Some lp \<Rightarrow>
               if retail_price lp = retailPrice then ret ()
               else productPrice_update env (price_id lp) retailPrice
           | None \<Rightarrow>
               bind (productPrice_create env pid retailPrice None (now env)) (\<lambda>newPrice. ret ()))
       (\<lambda>_.
       ret \<lparr>result_productId = toString pid, result_name = trimmedName, result_sku = trimmedSku,
            result_stock = stockQuantity, result_price = retailPrice,
            result_warehouseId = toString (warehouse_id warehouse),
            result_warehouseName = warehouse_name warehouse\<rparr>)))))"

definition updateProduct_try ::
  "env \<Rightarrow> string \<Rightarrow> string \<Rightarrow> string \<Rightarrow> productInput \<Rightarrow> productResult action" where
  "updateProduct_try env userId orgId ident updatedProduct =
     bind (lift (BigInt orgId)) (\<lambda>bigOrgId.
     bind (ensureOrganizationMember env orgId) (\<lambda>_.
     bind (getUserRole env orgId) (\<lambda>r.
       if \<not> hasPermission r [''writer'', ''read-write'', ''admin'']
       then throw (Error ''Insufficient permissions to update products'')
       else
         bind (lift (BigInt ident)) (\<lambda>pid.
         bind (getOrCreateUser env userId) (\<lambda>usr.
           let trimmedSku = trim (in_sku updatedProduct);
               trimmedName = trim (in_name updatedProduct);
               imageUrl = trim_or_null (in_image updatedProduct);
               stockQuantity = clamp_int (in_stock updatedProduct);
               retailPrice = clamp_rat (in_price updatedProduct)
           in
           bind (product_findFirst env
                   (\<lambda>p. product_id p = pid \<and> product_org_id p = bigOrgId)) (\<lambda>existingProduct.
             if existingProduct = None
             then throw (Error ''Product not found in this organization'')
             else
               bind (product_findFirst env
                       (\<lambda>p. sku p = trimmedSku \<and> product_org_id p = bigOrgId
                            \<and> \<not> product_id p = pid)) (\<lambda>duplicateSku.
                 if duplicateSku \<noteq> None
                 then throw (Error ''A product with this SKU already exists in this organization'')
                 else if stockQuantity < 0
                 then throw (Error ''Stock quantity cannot be negative'')
                 else if retailPrice < 0
                 then throw (Error ''Product price cannot be negative'')
                 else
                   bind (transaction_global_warehouse env
                           (updateProduct_tx env bigOrgId pid usr trimmedName trimmedSku
                              (map_option trim (in_description updatedProduct)) imageUrl
                              stockQuantity retailPrice)) (\<lambda>result.
                   bind (invalidateProducts env orgId) (\<lambda>_.
                   bind (revalidatePath env ''/inventory'') (\<lambda>_.
                   bind (revalidatePath env ''/dashboard'') (\<lambda>_.
                   bind (revalidatePath env (''/inventory/'' @ orgId)) (\<lambda>_.
                     ret result))))))))))))"

definition updateProduct :: "env \<Rightarrow> string \<Rightarrow> string \<Rightarrow> productInput \<Rightarrow> productResult action" where
  "updateProduct env orgId ident updatedProduct =
     bind (auth env) (\<lambda>userId.
      if falsy userId then throw (Error ''Unauthorized'')
      else if orgId = [] then throw (Error ''Organization ID is required'')
      else if ident = [] then throw (Error ''Product ID is required'')
      else if trim (in_name updatedProduct) = [] then throw (Error ''Product name is required'')
      else if trim (in_sku updatedProduct) = [] then throw (Error ''Product SKU is required'')
      else
        try_catch (updateProduct_try env (the userId) orgId ident updatedProduct)
          (product_catch ''Invalid organization or product ID format''
             ''Failed to update product. Please try again.''))"

subsection \<open>bulkUpdateProducts\<close>

text \<open>One round of the loop over \<open>updates\<close>: the product, then its stock when the data
  has one, then its price when the data has one.\<close>

definition bulkUpdate_item ::
  "env \<Rightarrow> int \<Rightarrow> user \<Rightarrow> string \<times> productInput \<Rightarrow> (string \<times> string \<times> string) action" where
  "bulkUpdate_item env bigOrgId usr update =
     bind (lift (BigInt (fst update))) (\<lambda>pid.
     bind (product_update env (\<lambda>p. product_id p = pid \<and> product_org_id p = bigOrgId)
             (\<lambda>p. p\<lparr>product_name := trim (in_name (snd update)),
                     sku := trim (in_sku (snd update)),
                     description := map_option trim (in_description (snd update)),
                     image_url := map_option trim (in_image (snd update)),
                     modified_by := Some (user_id usr)\<rparr>)) (\<lambda>updatedProduct.
     bind (case in_stock (snd update) of
             None \<Rightarrow> ret ()
           | Some st \<Rightarrow>
               bind (getOrCreateDefaultWarehouse env bigOrgId) (\<lambda>warehouse.
                 upsert_stock env pid (warehouse_id warehouse) (max 0 st))) (\<lambda>_.
     bind (case in_price (snd update) of
             None \<Rightarrow> ret ()
           | Some pr \<Rightarrow>
               bind (productPrice_findFirst env pid) (\<lambda>existingPrice.
                 case existingPrice of
                   Some ep \<Rightarrow> productPrice_update env (price_id ep) (max 0 pr)
                 | None \<Rightarrow>
                     bind (productPrice_create env pid (max 0 pr) None (now env))
                       (\<lambda>newPrice. ret ()))) (\<lambda>_.
       ret (toString (product_id updatedProduct), product_name updatedProduct,
            sku updatedProduct)))))"

fun bulkUpdate_loop ::
  "env \<Rightarrow> int \<Rightarrow> user \<Rightarrow> (string \<times> productInput) list
   \<Rightarrow> (string \<times> string \<times> string) list \<Rightarrow> (string \<times> string \<times> string) list action" where
  "bulkUpdate_loop env bigOrgId usr [] updateResults = ret updateResults"
| "bulkUpdate_loop env bigOrgId usr (update # updates) updateResults =
     bind (bulkUpdate_item env bigOrgId usr update) (\<lambda>r.
       bulkUpdate_loop env bigOrgId usr updates (updateResults @ [r]))"

definition bulkUpdateProducts_try ::
  "env \<Rightarrow> string \<Rightarrow> string \<Rightarrow> (string \<times> productInput) list
   \<Rightarrow> (string \<times> string \<times> string) list action" where
  "bulkUpdateProducts_try env userId orgId updates =
     bind (lift (BigInt orgId)) (\<lambda>bigOrgId.
     bind (ensureOrganizationMember env orgId) (\<lambda>_.
     bind (getUserRole env orgId) (\<lambda>r.
       if \<not> hasPermission r [''writer'', ''read-write'', ''admin'']
       then throw (Error ''Insufficient permissions to update products'')
       else
         bind (getOrCreateUser env userId) (\<lambda>usr.
         bind (transaction_global_warehouse env
                 (bulkUpdate_loop env bigOrgId usr updates [])) (\<lambda>results.
         bind (invalidateProducts env orgId) (\<lambda>_.
         bind (revalidatePath env ''/inventory'') (\<lambda>_.
         bind (revalidatePath env ''/dashboard'') (\<lambda>_.
         bind (revalidatePath env (''/inventory/'' @ orgId)) (\<lambda>_.
           ret results)))))))))"

definition bulkUpdateProducts ::
  "env \<Rightarrow> string \<Rightarrow> (string \<times> productInput) list \<Rightarrow> (string \<times> string \<times> string) list action" where
  "bulkUpdateProducts env orgId updates =
     bind (auth env) (\<lambda>userId.
      if falsy userId then throw (Error ''Unauthorized'')
      else if orgId = [] then throw (Error ''Organization ID is required'')
      else if updates = [] then throw (Error ''No updates provided'')
      else
        try_catch (bulkUpdateProducts_try env (the userId) orgId updates)
          (\<lambda>error. case error of
             Error message \<Rightarrow>
               if str_includes message ''Cannot convert'' \<and> str_includes message ''BigInt''
               then throw (Error ''Invalid organization or product ID format'')
               else throw error
           | NonError \<Rightarrow> throw (Error ''Failed to update products. Please try again.'')))"

subsection \<open>updateProductStock\<close>

text \<open>The statements of the \<^verbatim>\<open>try\<close> block before the transaction: the three identifiers,
  the membership check, the role and its permission, the user row.\<close>

definition updateProductStock_pre ::
  "env \<Rightarrow> string \<Rightarrow> string \<Rightarrow> string \<Rightarrow> string \<Rightarrow> (int \<times> int \<times> user) action" where
  "updateProductStock_pre env userId orgId productId warehouseId =
     bind (lift (BigInt orgId)) (\<lambda>bigOrgId.
     bind (lift (BigInt productId)) (\<lambda>bigProductId.
     bind (lift (BigInt warehouseId)) (\<lambda>bigWarehouseId.
     bind (ensureOrganizationMember env orgId) (\<lambda>_.
     bind (getUserRole env orgId) (\<lambda>r.
       if \<not> hasPermission r [''writer'', ''read-write'', ''admin'']
       then throw (Error ''Insufficient permissions to update stock'')
       else
         bind (getOrCreateUser env userId) (\<lambda>usr.
           ret (bigProductId, bigWarehouseId, usr)))))))"

text \<open>The body of the transaction. \<^verbatim>\<open>existingStock?.quantity || 0\<close> is the quantity of the
  row, and 0 without a row.\<close>

definition updateProductStock_tx :: "env \<Rightarrow> int \<Rightarrow> int \<Rightarrow> user \<Rightarrow> int \<Rightarrow> unit action" where
  "updateProductStock_tx env bigProductId bigWarehouseId usr adjustment =
     bind (productStock_findFirst env bigProductId bigWarehouseId) (\<lambda>existingStock.
       let newQuantity =
             number_plus (case existingStock of None \<Rightarrow> 0 | Some r \<Rightarrow> quantity r) adjustment
       in
       if newQuantity < 0 then throw (Error ''Insufficient stock for this adjustment'')
       else
         bind (case existingStock of
                 Some r \<Rightarrow> productStock_update env (stock_id r) newQuantity
               | None \<Rightarrow>
                   bind (productStock_create env bigProductId bigWarehouseId (max 0 adjustment))
                     (\<lambda>created. ret ())) (\<lambda>_.
           stockMovement_create env
             \<lparr>movement_product_id = bigProductId, movement_warehouse_id = bigWarehouseId,
              movement_type = (if adjustment > 0 then ''in'' else ''out''),
              movement_quantity = \<bar>adjustment\<bar>,
              reason = (if adjustment > 0 then ''Stock increase'' else ''Stock decrease''),
              movement_notes = None, movement_created_by = user_id usr\<rparr>))"

definition updateProductStock_try ::
  "env \<Rightarrow> string \<Rightarrow> string \<Rightarrow> string \<Rightarrow> string \<Rightarrow> int \<Rightarrow> unit action" where
  "updateProductStock_try env userId orgId productId warehouseId adjustment =
     bind (updateProductStock_pre env userId orgId productId warehouseId)
       (\<lambda>(bigProductId, bigWarehouseId, usr).
     bind (transaction env
             (updateProductStock_tx env bigProductId bigWarehouseId usr adjustment)) (\<lambda>_.
     bind (invalidateProducts env orgId) (\<lambda>_.
     bind (revalidatePath env ''/inventory'') (\<lambda>_.
     bind (revalidatePath env (''/inventory/'' @ productId)) (\<lambda>_.
       ret ())))))"

text \<open>The action returns \<^verbatim>\<open>{ success: true }\<close>; the model returns the unit value.\<close>

definition updateProductStock :: "env \<Rightarrow> string \<Rightarrow> string \<Rightarrow> string \<Rightarrow> int \<Rightarrow> unit action" where
  "updateProductStock env orgId productId warehouseId adjustment =
     bind (auth env) (\<lambda>userId.
      if falsy userId then throw (Error ''Unauthorized'')
      else if orgId = [] then throw (Error ''Organization ID is required'')
      else if productId = [] then throw (Error ''Product ID is required'')
      else if warehouseId = [] then throw (Error ''Warehouse ID is required'')
      else
        try_catch
          (updateProductStock_try env (the userId) orgId productId warehouseId adjustment)
          (\<lambda>error. case error of
             Error message \<Rightarrow> throw error
           | NonError \<Rightarrow> throw (Error ''Failed to update stock. Please try again.'')))"

subsection \<open>transferStock\<close>

definition transferStock_pre ::
  "env \<Rightarrow> string \<Rightarrow> string \<Rightarrow> string \<Rightarrow> string \<Rightarrow> string \<Rightarrow> (int \<times> int \<times> int \<times> user) action" where
  "transferStock_pre env userId orgId productId fromWarehouseId toWarehouseId =
     bind (lift (BigInt orgId)) (\<lambda>bigOrgId.
     bind (lift (BigInt productId)) (\<lambda>bigProductId.
     bind (lift (BigInt fromWarehouseId)) (\<lambda>bigFromWarehouseId.
     bind (lift (BigInt toWarehouseId)) (\<lambda>bigToWarehouseId.
     bind (ensureOrganizationMember env orgId) (\<lambda>_.
     bind (getUserRole env orgId) (\<lambda>r.
       if \<not> hasPermission r [''writer'', ''read-write'', ''admin'']
       then throw (Error ''Insufficient permissions to transfer stock'')
       else
         bind (getOrCreateUser env userId) (\<lambda>usr.
           ret (bigProductId, bigFromWarehouseId, bigToWarehouseId, usr))))))))"

text \<open>The two ledger rows of a transfer.\<close>

definition transfer_movements ::
  "int \<Rightarrow> int \<Rightarrow> int \<Rightarrow> user \<Rightarrow> int \<Rightarrow> string \<Rightarrow> string option \<Rightarrow> stockMovement list" where
  "transfer_movements bigProductId bigFromWarehouseId bigToWarehouseId usr qty why note =
     [\<lparr>movement_product_id = bigProductId, movement_warehouse_id = bigFromWarehouseId,
       movement_type = ''out'', movement_quantity = qty,
       reason = ''Transfer to warehouse '' @ toString bigToWarehouseId @ '': '' @ why,
       movement_notes = note, movement_created_by = user_id usr\<rparr>,
      \<lparr>movement_product_id = bigProductId, movement_warehouse_id = bigToWarehouseId,
       movement_type = ''in'', movement_quantity = qty,
       reason = ''Transfer from warehouse '' @ toString bigFromWarehouseId @ '': '' @ why,
       movement_notes = note, movement_created_by = user_id usr\<rparr>]"

definition transferStock_tx ::
  "env \<Rightarrow> int \<Rightarrow> int \<Rightarrow> int \<Rightarrow> user \<Rightarrow> int \<Rightarrow> string \<Rightarrow> string option \<Rightarrow> unit action" where
  "transferStock_tx env bigProductId bigFromWarehouseId bigToWarehouseId usr qty why note =
     bind (productStock_findFirst env bigProductId bigFromWarehouseId) (\<lambda>sourceStock.
       if sourceStock = None \<or> quantity (the sourceStock) < qty
       then throw (Error ''Insufficient stock in source warehouse'')
       else
         bind (productStock_update env (stock_id (the sourceStock))
                 (number_minus (quantity (the sourceStock)) qty)) (\<lambda>_.
         bind (productStock_findFirst env bigProductId bigToWarehouseId) (\<lambda>destStock.
         bind (case destStock of
                 Some dst \<Rightarrow>
                   productStock_update env (stock_id dst) (number_plus (quantity dst) qty)
               | None \<Rightarrow>
                   bind (productStock_create env bigProductId bigToWarehouseId qty)
                     (\<lambda>created. ret ())) (\<lambda>_.
           stockMovement_createMany env
             (transfer_movements bigProductId bigFromWarehouseId bigToWarehouseId usr
                qty why note)))))"

definition transferStock_try ::
  "env \<Rightarrow> string \<Rightarrow> string \<Rightarrow> string \<Rightarrow> string \<Rightarrow> string \<Rightarrow> int \<Rightarrow> string \<Rightarrow> string option
   \<Rightarrow> unit action" where
  "transferStock_try env userId orgId productId fromWarehouseId toWarehouseId qty why note =
     bind (transferStock_pre env userId orgId productId fromWarehouseId toWarehouseId)
       (\<lambda>(bigProductId, bigFromWarehouseId, bigToWarehouseId, usr).
     bind (transaction env
             (transferStock_tx env bigProductId bigFromWarehouseId bigToWarehouseId usr
                qty why note)) (\<lambda>_.
     bind (invalidateProducts env orgId) (\<lambda>_.
     bind (revalidatePath env ''/inventory'') (\<lambda>_.
     bind (revalidatePath env (''/inventory/'' @ productId)) (\<lambda>_.
       ret ())))))"

definition transferStock ::
  "env \<Rightarrow> string \<Rightarrow> string \<Rightarrow> string \<Rightarrow> string \<Rightarrow> int \<Rightarrow> string \<Rightarrow> string option \<Rightarrow> unit action" where
  "transferStock env orgId productId fromWarehouseId toWarehouseId qty why note =
     bind (auth env) (\<lambda>userId.
      if falsy userId then throw (Error ''Unauthorized'')
      else if orgId = [] then throw (Error ''Organization ID is required'')
      else if productId = [] then throw (Error ''Product ID is required'')
      else if fromWarehouseId = [] \<or> toWarehouseId = []
      then throw (Error ''Both warehouses are required'')
      else if qty \<le> 0 then throw (Error ''Quantity must be positive'')
      else
        try_catch
          (transferStock_try env (the userId) orgId productId fromWarehouseId
             toWarehouseId qty why note)
          (\<lambda>error. case error of
             Error message \<Rightarrow> throw error
           | NonError \<Rightarrow> throw (Error ''Failed to transfer stock. Please try again.'')))"

subsection \<open>What the actions read as stock\<close>

text \<open>The quantity a transaction reads for a product in a warehouse (0 without a row),
  and the total \<open>getProductDetails\<close> computes over the stock rows of a product.\<close>

definition stock_quantity :: "db \<Rightarrow> int \<Rightarrow> int \<Rightarrow> int" where
  "stock_quantity d pid wid =
     (case find (is_stock pid wid) (productStocks d) of None \<Rightarrow> 0 | Some r \<Rightarrow> quantity r)"

definition totalStock :: "db \<Rightarrow> int \<Rightarrow> int" where
  "totalStock d pid =
     fold (\<lambda>r acc. acc + quantity r) (filter (\<lambda>r. stock_product_id r = pid) (productStocks d)) 0"

section \<open>Sample data\<close>

text \<open>
  A request of the principal \<open>user_1\<close> with a working store, and a database in which that
  principal created the organization 1 but has no membership row, while \<open>user_2\<close> is a
  writer of it. The organization has two warehouses, the first of them named \<open>Main\<close>,
  one product with 5 units in the first warehouse, one order with one item, and two
  invitations, one pending and one accepted.
\<close>

definition sample_env :: env where
  "sample_env =
     \<lparr>auth_userId = Some ''user_1'', clerk_email = Some ''ann@example.com'', now = 1000,
      faults = (\<lambda>h c. None), settles_first = (\<lambda>h. 0)\<rparr>"

text \<open>The same request when \<^verbatim>\<open>auth()\<close> throws.\<close>

definition sample_env_auth_throws :: env where
  "sample_env_auth_throws =
     \<lparr>auth_userId = Some ''user_1'', clerk_email = Some ''ann@example.com'', now = 1000,
      faults = (\<lambda>h c. if c = Clerk_auth then Some (Error ''auth() failed'') else None),
      settles_first = (\<lambda>h. 0)\<rparr>"

definition sample_db :: db where
  "sample_db =
     \<lparr>users = [\<lparr>user_id = 1, clerk_id = ''user_1'', email = ''ann@example.com''\<rparr>,
               \<lparr>user_id = 2, clerk_id = ''user_2'', email = ''bob@example.com''\<rparr>,
               \<lparr>user_id = 3, clerk_id = ''user_3'', email = ''cy@example.com''\<rparr>],
      organizations = [\<lparr>org_id = 1, org_name = ''Acme'', created_by = 1\<rparr>],
      organizationMembers = [\<lparr>member_org_id = 1, member_user_id = 2, role = ''writer''\<rparr>],
      organizationInvites =
        [\<lparr>invite_org_id = 1, invite_email = ''cy@example.com'', token = ''t1'',
          invite_role = ''reader'', status = ''pending'', expires_at = Some 5000\<rparr>,
         \<lparr>invite_org_id = 1, invite_email = ''bob@example.com'', token = ''t2'',
          invite_role = ''writer'', status = ''accepted'', expires_at = Some 5000\<rparr>],
      warehouses =
        [\<lparr>warehouse_id = 1, warehouse_org_id = 1, warehouse_name = ''Main'', address = None\<rparr>,
         \<lparr>warehouse_id = 2, warehouse_org_id = 1, warehouse_name = ''Default Warehouse'',
          address = Some ''Default Address''\<rparr>],
      products =
        [\<lparr>product_id = 1, product_org_id = 1, product_name = ''Bolt'', sku = ''A-1'',
          description = None, image_url = None, product_status = ''active'',
          product_created_by = 1, modified_by = None\<rparr>],
      productStocks =
        [\<lparr>stock_id = 1, stock_product_id = 1, stock_warehouse_id = 1, quantity = 5\<rparr>],
      productPrices =
        [\<lparr>price_id = 1, price_product_id = 1, retail_price = 10, actual_price = Some 10,
          valid_from = 0, valid_to = None\<rparr>],
      orders = [\<lparr>order_id = 1, order_org_id = 1\<rparr>],
      orderItems = [\<lparr>item_order_id = 1, item_product_id = 1\<rparr>],
      stockMovements = []\<rparr>"

definition sample_state :: state where
  "sample_state = \<lparr>tables = sample_db, issued = []\<rparr>"

text \<open>The state after \<open>user_1\<close> lowered the stock of the product in the first warehouse by 3.\<close>

definition sample_adjusted :: state where
  "sample_adjusted =
     \<lparr>tables = sample_db
         \<lparr>organizationMembers :=
            [\<lparr>member_org_id = 1, member_user_id = 2, role = ''writer''\<rparr>,
             \<lparr>member_org_id = 1, member_user_id = 1, role = ''admin''\<rparr>],
          productStocks :=
            [\<lparr>stock_id = 1, stock_product_id = 1, stock_warehouse_id = 1, quantity = 2\<rparr>],
          stockMovements :=
            [\<lparr>movement_product_id = 1, movement_warehouse_id = 1, movement_type = ''out'',
              movement_quantity = 3, reason = ''Stock decrease'', movement_notes = None,
              movement_created_by = 1\<rparr>]\<rparr>,
       issued =
         [Clerk_auth,
          Clerk_auth, Prisma ''user'' ''findUnique'', Prisma ''organization'' ''findUnique'',
          Transaction_begin, Prisma ''organizationMember'' ''upsert'', Transaction_commit,
          Clerk_auth, Prisma ''user'' ''findUnique'', Prisma ''organization'' ''findFirst'',
          Prisma ''organizationMember'' ''upsert'',
          Prisma ''user'' ''findUnique'',
          Transaction_begin, Prisma ''productStock'' ''findFirst'',
          Prisma ''productStock'' ''update'', Prisma ''stockMovement'' ''create'',
          Transaction_commit, Cache_invalidateProducts ''1'',
          Next_revalidatePath ''/inventory'', Next_revalidatePath ''/inventory/1'']\<rparr>"

section \<open>Notions used in the proofs\<close>

text \<open>An action preserves a relation between the state before and the state after,
  whatever it returns or throws.\<close>

definition preserves :: "(state \<Rightarrow> state \<Rightarrow> bool) \<Rightarrow> 'a action \<Rightarrow> bool" where
  "preserves R m = (\<forall>s. R s (snd (m s)))"

text \<open>The functions of lib/auth.ts write the tables of users and of members only.\<close>

definition auth_frame :: "state \<Rightarrow> state \<Rightarrow> bool" where
  "auth_frame s s' =
     (tables s' = (tables s)\<lparr>users := users (tables s'),
                             organizationMembers := organizationMembers (tables s')\<rparr>)"

text \<open>The stock rows after a transfer that went through: the source row is lowered, then
  the destination row is raised, or created with the quantity moved.\<close>

definition transfer_rows :: "int \<Rightarrow> int \<Rightarrow> int \<Rightarrow> int \<Rightarrow> productStock list \<Rightarrow> productStock list" where
  "transfer_rows pid src dst qty rows =
     (case find (is_stock pid src) rows of
        None \<Rightarrow> rows
      | Some r \<Rightarrow>
          let rows1 = update_first (\<lambda>x. stock_id x = stock_id r)
                        (\<lambda>x. x\<lparr>quantity := number_minus (quantity r) qty\<rparr>) rows
          in case find (is_stock pid dst) rows1 of
               Some d \<Rightarrow>
                 update_first (\<lambda>x. stock_id x = stock_id d)
                   (\<lambda>x. x\<lparr>quantity := number_plus (quantity d) qty\<rparr>) rows1
             | None \<Rightarrow>
                 rows1 @ [\<lparr>stock_id = nextId (map stock_id rows1), stock_product_id = pid,
                           stock_warehouse_id = dst, quantity = qty\<rparr>])"

text \<open>The stock rows after an adjustment that went through.\<close>

definition adjust_rows :: "int \<Rightarrow> int \<Rightarrow> int \<Rightarrow> productStock list \<Rightarrow> productStock list" where
  "adjust_rows pid wid adjustment rows =
     (case find (is_stock pid wid) rows of
        Some r \<Rightarrow>
          update_first (\<lambda>x. stock_id x = stock_id r)
            (\<lambda>x. x\<lparr>quantity := number_plus (quantity r) adjustment\<rparr>) rows
      | None \<Rightarrow>
          rows @ [\<lparr>stock_id = nextId (map stock_id rows), stock_product_id = pid,
                    stock_warehouse_id = wid, quantity = max 0 adjustment\<rparr>])"

text \<open>The ledger row of an adjustment.\<close>

definition adjustment_movement :: "int \<Rightarrow> int \<Rightarrow> user \<Rightarrow> int \<Rightarrow> stockMovement" where
  "adjustment_movement pid wid usr adjustment =
     \<lparr>movement_product_id = pid, movement_warehouse_id = wid,
      movement_type = (if adjustment > 0 then ''in'' else ''out''),
      movement_quantity = \<bar>adjustment\<bar>,
      reason = (if adjustment > 0 then ''Stock increase'' else ''Stock decrease''),
      movement_notes = None, movement_created_by = user_id usr\<rparr>"

text \<open>\<^verbatim>\<open>Number.isSafeInteger\<close>: the integers up to \<open>2\<^sup>5\<^sup>3 - 1\<close> in magnitude. Each of them is
  a double, and a sum or difference of doubles that is one of them is exact.\<close>

definition safe_integer :: "int \<Rightarrow> bool" where
  "safe_integer n = (\<bar>n\<bar> \<le> 9007199254740991)"

chapter \<open>Properties\<close>

section \<open>Numbers\<close>

lemma bitLength_le: "n < 2 ^ k \<Longrightarrow> bitLength n \<le> k"
proof (induction k arbitrary: n)
  case 0
  then show ?case by (simp add: bitLength.simps)
next
  case (Suc k)
  then have "n div 2 < 2 ^ k" by simp
  then have "bitLength (n div 2) \<le> k" by (rule Suc.IH)
  then show ?case by (subst bitLength.simps) simp
qed

lemma Number_safe: "safe_integer n \<Longrightarrow> Number n = n"
proof -
  assume "safe_integer n"
  then have "nat \<bar>n\<bar> < 2 ^ 53" by (simp add: safe_integer_def)
  then have "bitLength (nat \<bar>n\<bar>) \<le> 53" by (rule bitLength_le)
  then show ?thesis by (simp add: Number_def Let_def)
qed

lemma number_plus_safe [simp]: "safe_integer (a + b) \<Longrightarrow> number_plus a b = a + b"
  by (simp add: number_plus_def Number_safe)

lemma number_minus_safe [simp]: "safe_integer (a - b) \<Longrightarrow> number_minus a b = a - b"
  by (simp add: number_minus_def Number_safe)

section \<open>Effects and tables\<close>

lemma bind_ret [simp]: "bind (ret x) f = f x"
  by (rule ext) (simp add: bind_def ret_def)

lemma bind_throw [simp]: "bind (throw e) f = throw e"
  by (rule ext) (simp add: bind_def throw_def)

lemma bind_lift_Inr [simp]: "bind (lift (Inr x)) f = f x"
  by (rule ext) (simp add: bind_def lift_def)

lemma bind_lift_Inl [simp]: "bind (lift (Inl e)) f = throw e"
  by (rule ext) (simp add: bind_def lift_def throw_def)

lemma bind_Inr: "m s = (Inr x, s') \<Longrightarrow> bind m f s = f x s'"
  by (simp add: bind_def)

lemma bind_Inl: "m s = (Inl e, s') \<Longrightarrow> bind m f s = (Inl e, s')"
  by (simp add: bind_def)

lemma ext_ok: "faults env (issued s) c = None \<Longrightarrow> ext env c m s = m (s\<lparr>issued := issued s @ [c]\<rparr>)"
  by (simp add: ext_def)

lemma ext_fault: "faults env (issued s) c = Some e \<Longrightarrow> ext env c m s = (Inl e, s\<lparr>issued := issued s @ [c]\<rparr>)"
  by (simp add: ext_def)

lemma auth_ok:
  "faults env (issued s) Clerk_auth = None \<Longrightarrow>
   auth env s = (Inr (auth_userId env), s\<lparr>issued := issued s @ [Clerk_auth]\<rparr>)"
  by (simp add: auth_def ext_def ret_def)

lemma auth_fault:
  "faults env (issued s) Clerk_auth = Some e \<Longrightarrow>
   auth env s = (Inl e, s\<lparr>issued := issued s @ [Clerk_auth]\<rparr>)"
  by (simp add: auth_def ext_def)

lemma bind_auth_ok:
  "faults env (issued s) Clerk_auth = None \<Longrightarrow>
   bind (auth env) f s = f (auth_userId env) (s\<lparr>issued := issued s @ [Clerk_auth]\<rparr>)"
  by (simp add: bind_def auth_ok)

lemma bind_auth_fault:
  "faults env (issued s) Clerk_auth = Some e \<Longrightarrow>
   bind (auth env) f s = (Inl e, s\<lparr>issued := issued s @ [Clerk_auth]\<rparr>)"
  by (simp add: bind_def auth_fault)

lemma auth_InrE:
  "auth env s = (Inr u, s') \<Longrightarrow>
   u = auth_userId env \<and> s' = s\<lparr>issued := issued s @ [Clerk_auth]\<rparr>
   \<and> faults env (issued s) Clerk_auth = None"
  by (auto simp: auth_def ext_def ret_def Let_def split: option.splits)

lemma auth_tables: "auth env s = (r, s') \<Longrightarrow> tables s' = tables s"
  by (auto simp: auth_def ext_def ret_def Let_def split: option.splits)

lemma BigInt_ok: "StringToBigInt str = Some b \<Longrightarrow> BigInt str = Inr b"
  by (simp add: BigInt_def)

lemma find_update_first:
  "(\<And>x. P x \<Longrightarrow> P (f x)) \<Longrightarrow> find P (update_first P f xs) = map_option f (find P xs)"
  by (induction xs) auto

lemma find_app:
  "find P (xs @ ys) = (case find P xs of None \<Rightarrow> find P ys | Some x \<Rightarrow> Some x)"
  by (induction xs) auto

lemma find_member_update_role:
  "find (is_member b u) (update_first (is_member b u) (\<lambda>m. m\<lparr>role := r\<rparr>) ms)
   = map_option (\<lambda>m. m\<lparr>role := r\<rparr>) (find (is_member b u) ms)"
  by (induction ms) (auto simp: is_member_def)

lemma find_upsert_member:
  "map_option role (find (is_member b u) (upsert_member b u r ms)) = Some r"
  by (auto simp: upsert_member_def find_member_update_role find_app is_member_def
           split: option.splits)

lemma bind_InrE:
  "bind m f s = (Inr y, s') \<Longrightarrow> \<exists>x s1. m s = (Inr x, s1) \<and> f x s1 = (Inr y, s')"
  by (auto simp: bind_def split: prod.splits sum.splits)

lemma ext_InrE:
  "ext env c m s = (Inr y, s') \<Longrightarrow>
   faults env (issued s) c = None \<and> m (s\<lparr>issued := issued s @ [c]\<rparr>) = (Inr y, s')"
  by (auto simp: ext_def Let_def split: option.splits)

lemma ext_ret_tables: "ext env c (ret x) s = (r, s') \<Longrightarrow> tables s' = tables s"
  by (auto simp: ext_def Let_def ret_def split: option.splits)

lemma transaction_InrE:
  "transaction env body s = (Inr y, s') \<Longrightarrow>
   \<exists>s1. body (s\<lparr>issued := issued s @ [Transaction_begin]\<rparr>) = (Inr y, s1)
        \<and> s' = s1\<lparr>issued := issued s1 @ [Transaction_commit]\<rparr>"
  by (auto simp: transaction_def transaction_with_def ext_def Let_def
           split: option.splits prod.splits sum.splits)

lemma transaction_Inl_tables:
  "transaction env body s = (Inl e, s') \<Longrightarrow> tables s' = tables s"
  by (auto simp: transaction_def transaction_with_def ext_def Let_def
           split: option.splits prod.splits sum.splits)

lemma try_catch_rethrow_InrE:
  "try_catch m (\<lambda>error. case error of Error message \<Rightarrow> throw error | NonError \<Rightarrow> throw e') s
     = (Inr y, s') \<Longrightarrow> m s = (Inr y, s')"
  by (auto simp: try_catch_def throw_def split: prod.splits sum.splits exn.splits)

lemma try_catch_rethrow_tables:
  "try_catch m (\<lambda>error. case error of Error message \<Rightarrow> throw error | NonError \<Rightarrow> throw e') s
     = (r, s') \<Longrightarrow> s' = snd (m s)"
  by (auto simp: try_catch_def throw_def split: prod.splits sum.splits exn.splits)

lemma ret_state: "ret a s = (r, s') \<Longrightarrow> s' = s"
  by (simp add: ret_def)

lemma post_tables:
  assumes "bind (invalidateProducts env orgId) (\<lambda>_.
        bind (revalidatePath env p1) (\<lambda>_.
        bind (revalidatePath env p2) (\<lambda>_. ret y))) s = (Inr x, s')"
  shows "tables s' = tables s"
proof -
  from assms obtain a s1 where 1: "invalidateProducts env orgId s = (Inr a, s1)"
    and r1: "bind (revalidatePath env p1) (\<lambda>_.
        bind (revalidatePath env p2) (\<lambda>_. ret y)) s1 = (Inr x, s')"
    by (blast dest: bind_InrE)
  from r1 obtain b s2 where 2: "revalidatePath env p1 s1 = (Inr b, s2)"
    and r2: "bind (revalidatePath env p2) (\<lambda>_. ret y) s2 = (Inr x, s')"
    by (blast dest: bind_InrE)
  from r2 obtain c s3 where 3: "revalidatePath env p2 s2 = (Inr c, s3)"
    and r3: "ret y s3 = (Inr x, s')"
    by (blast dest: bind_InrE)
  from 1 have "tables s1 = tables s" unfolding invalidateProducts_def by (rule ext_ret_tables)
  moreover from 2 have "tables s2 = tables s1" unfolding revalidatePath_def by (rule ext_ret_tables)
  moreover from 3 have "tables s3 = tables s2" unfolding revalidatePath_def by (rule ext_ret_tables)
  moreover from r3 have "s' = s3" by (rule ret_state)
  ultimately show ?thesis by simp
qed

section \<open>The permission gate\<close>

lemma hasPermission_null: "hasPermission None requiredRoles = False"
  by (simp add: hasPermission_def falsy_def)

lemma hasPermission_sentinel:
  "r = [] \<or> r = ''null'' \<or> r = ''undefined'' \<or> r = ''NULL'' \<Longrightarrow>
   hasPermission (Some r) requiredRoles = False"
  by (auto simp: hasPermission_def falsy_def)

lemma hasPermission_admin: "hasPermission (Some ''admin'') requiredRoles = True"
  by (simp add: hasPermission_def falsy_def)

lemma hasPermission_other:
  assumes "r \<noteq> []" "r \<noteq> ''null''" "r \<noteq> ''undefined''" "r \<noteq> ''NULL''" "r \<noteq> ''admin''"
  shows "hasPermission (Some r) requiredRoles = (r \<in> set requiredRoles)"
  using assms by (simp add: hasPermission_def falsy_def)

text \<open>
  Claim C2. \<open>hasPermission\<close> is a total function of its two arguments alone; for every
  list of required roles it is false on \<open>null\<close>, on the empty string and on the
  sentinel strings \<open>null\<close>, \<open>undefined\<close> and \<open>NULL\<close>; it is true on \<open>admin\<close>, also for
  the empty list; and on every other role it is true exactly when the role is an
  element of the list.
\<close>

theorem hasPermission_spec:
  "hasPermission None requiredRoles = False
   \<and> hasPermission (Some []) requiredRoles = False
   \<and> hasPermission (Some ''null'') requiredRoles = False
   \<and> hasPermission (Some ''undefined'') requiredRoles = False
   \<and> hasPermission (Some ''NULL'') requiredRoles = False
   \<and> hasPermission (Some ''admin'') requiredRoles = True
   \<and> hasPermission (Some ''admin'') [] = True
   \<and> (r \<noteq> [] \<and> r \<noteq> ''null'' \<and> r \<noteq> ''undefined'' \<and> r \<noteq> ''NULL'' \<and> r \<noteq> ''admin''
        \<longrightarrow> hasPermission (Some r) requiredRoles = (r \<in> set requiredRoles))"
  using hasPermission_null hasPermission_sentinel hasPermission_admin hasPermission_other
  by simp

theorem hasPermission_spec_witness:
  "hasPermission (Some ''writer'') [''writer'', ''read-write'', ''admin''] = True
   \<and> hasPermission (Some ''reader'') [''writer'', ''read-write'', ''admin''] = False
   \<and> hasPermission None [''writer''] = False
   \<and> hasPermission (Some ''admin'') [] = True"
  using hasPermission_spec [of "[''writer'', ''read-write'', ''admin'']" "''writer''"]
    hasPermission_spec [of "[''writer'', ''read-write'', ''admin'']" "''reader''"]
    hasPermission_spec [of "[''writer'']" "''reader''"]
  by simp

section \<open>The role resolver\<close>

lemma getOrCreateUser_found:
  assumes "faults env (issued s) (Prisma ''user'' ''findUnique'') = None"
      and "find (\<lambda>u. clerk_id u = userId) (users (tables s)) = Some u"
  shows "getOrCreateUser env userId s = (Inr u, s\<lparr>issued := issued s @ [Prisma ''user'' ''findUnique'']\<rparr>)"
  using assms
  by (simp add: getOrCreateUser_def user_findUnique_def ext_ok query_def bind_def ret_def)

text \<open>
  Claim C1. When the store works, the principal has a user row and that user is the
  \<open>created_by\<close> of the organization, \<open>getUserRole\<close> returns \<open>admin\<close> whatever the
  membership table holds. Only the membership table changes: the row of (organization,
  creator) gets the role \<open>admin\<close> when there is one, and a row with the role \<open>admin\<close> is
  appended when there is none; afterwards the row of the pair has the role \<open>admin\<close>.
\<close>

theorem getUserRole_creator:
  assumes nofault: "faults env = (\<lambda>h c. None)"
      and auth: "auth_userId env = Some userId" "userId \<noteq> []"
      and org: "StringToBigInt orgId = Some bigOrgId"
      and usr: "find (\<lambda>u. clerk_id u = userId) (users (tables s)) = Some u"
      and creator: "org \<in> set (organizations (tables s))" "org_id org = bigOrgId"
                   "created_by org = user_id u"
  shows "\<exists>s'. getUserRole env orgId s = (Inr (Some ''admin''), s')
           \<and> tables s' = (tables s)\<lparr>organizationMembers := organizationMembers (tables s')\<rparr>
           \<and> organizationMembers (tables s') =
               (case find (is_member bigOrgId (user_id u)) (organizationMembers (tables s)) of
                  Some m \<Rightarrow> update_first (is_member bigOrgId (user_id u)) (\<lambda>m. m\<lparr>role := ''admin''\<rparr>)
                              (organizationMembers (tables s))
                | None \<Rightarrow> organizationMembers (tables s)
                            @ [\<lparr>member_org_id = bigOrgId, member_user_id = user_id u, role = ''admin''\<rparr>])
           \<and> map_option role (find (is_member bigOrgId (user_id u)) (organizationMembers (tables s')))
               = Some ''admin''"
proof -
  have f: "find (\<lambda>org. org_id org = bigOrgId \<and> created_by org = user_id u) (organizations (tables s)) \<noteq> None"
    using creator by (auto simp: find_None_iff)
  then obtain o' where o': "find (\<lambda>org. org_id org = bigOrgId \<and> created_by org = user_id u) (organizations (tables s)) = Some o'"
    by auto
  show ?thesis
    using auth org usr o' find_upsert_member[of bigOrgId "user_id u" "''admin''" "organizationMembers (tables s)"]
    by (simp add: getUserRole_def auth_def getUserRole_try_def falsy_def try_catch_def BigInt_ok
        getOrCreateUser_found nofault bind_Inr organization_findFirst_def ext_ok query_def
        organizationMember_upsert_def exec_def ret_def upsert_member_def bind_def split: option.splits)
qed

lemma sample_BigInt_1: "StringToBigInt ''1'' = Some 1"
  by (simp add: StringToBigInt_def trim_def isWhiteSpace_def signedInteger_def parseRadix_def
      digitValue_def)

theorem getUserRole_creator_witness:
  "\<exists>s'. getUserRole sample_env ''1'' sample_state = (Inr (Some ''admin''), s')
         \<and> organizationMembers (tables s') =
             [\<lparr>member_org_id = 1, member_user_id = 2, role = ''writer''\<rparr>,
              \<lparr>member_org_id = 1, member_user_id = 1, role = ''admin''\<rparr>]"
proof -
  have "\<exists>s'. getUserRole sample_env ''1'' sample_state = (Inr (Some ''admin''), s')
         \<and> tables s' = (tables sample_state)\<lparr>organizationMembers := organizationMembers (tables s')\<rparr>
         \<and> organizationMembers (tables s') =
               (case find (is_member 1 (user_id \<lparr>user_id = 1, clerk_id = ''user_1'', email = ''ann@example.com''\<rparr>))
                       (organizationMembers (tables sample_state)) of
                  Some m \<Rightarrow> update_first (is_member 1 (user_id \<lparr>user_id = 1, clerk_id = ''user_1'', email = ''ann@example.com''\<rparr>))
                              (\<lambda>m. m\<lparr>role := ''admin''\<rparr>) (organizationMembers (tables sample_state))
                | None \<Rightarrow> organizationMembers (tables sample_state)
                            @ [\<lparr>member_org_id = 1, member_user_id = user_id \<lparr>user_id = 1, clerk_id = ''user_1'', email = ''ann@example.com''\<rparr>,
                                role = ''admin''\<rparr>])
         \<and> map_option role (find (is_member 1 (user_id \<lparr>user_id = 1, clerk_id = ''user_1'', email = ''ann@example.com''\<rparr>))
               (organizationMembers (tables s'))) = Some ''admin''"
    by (rule getUserRole_creator [where userId = "''user_1''"
          and org = "\<lparr>org_id = 1, org_name = ''Acme'', created_by = 1\<rparr>"])
       (simp_all add: sample_env_def sample_state_def sample_db_def sample_BigInt_1)
  then obtain s' where
    "getUserRole sample_env ''1'' sample_state = (Inr (Some ''admin''), s')"
    "organizationMembers (tables s') =
       [\<lparr>member_org_id = 1, member_user_id = 2, role = ''writer''\<rparr>,
        \<lparr>member_org_id = 1, member_user_id = 1, role = ''admin''\<rparr>]"
    by (auto simp: sample_state_def sample_db_def is_member_def)
  then show ?thesis by blast
qed

subsection \<open>Failures inside the resolver\<close>

text \<open>\<^verbatim>\<open>auth()\<close> is called before the \<^verbatim>\<open>try\<close> block: what it throws, the resolver throws.\<close>

lemma getUserRole_auth_throws:
  "faults env (issued s) Clerk_auth = Some e \<Longrightarrow>
   getUserRole env orgId s = (Inl e, s\<lparr>issued := issued s @ [Clerk_auth]\<rparr>)"
  by (simp add: getUserRole_def auth_fault bind_def)

lemma getUserRole_total:
  "faults env (issued s) Clerk_auth = None \<Longrightarrow> \<exists>r. fst (getUserRole env orgId s) = Inr r"
  by (simp add: getUserRole_def auth_ok bind_def ret_def try_catch_def
      split: prod.splits sum.splits)

lemma getUserRole_catches:
  assumes "faults env (issued s) Clerk_auth = None"
      and "\<not> falsy (auth_userId env)"
      and "fst (getUserRole_try env (the (auth_userId env)) orgId
                  (s\<lparr>issued := issued s @ [Clerk_auth]\<rparr>)) = Inl e"
  shows "fst (getUserRole env orgId s) = Inr None"
  using assms
  by (auto simp: getUserRole_def auth_ok bind_def ret_def try_catch_def
           split: prod.splits sum.splits)

lemma getUserRole_unauthenticated:
  assumes "faults env (issued s) Clerk_auth = None" and "falsy (auth_userId env)"
  shows "fst (getUserRole env orgId s) = Inr None"
  using assms by (simp add: getUserRole_def auth_ok bind_def ret_def)

lemma getUserRole_try_malformed:
  "StringToBigInt orgId = None \<Longrightarrow>
   getUserRole_try env userId orgId s
     = (Inl (Error (''Cannot convert '' @ orgId @ '' to a BigInt'')), s)"
  by (simp add: getUserRole_try_def BigInt_def throw_def)

lemma getUserRole_malformed:
  "faults env (issued s) Clerk_auth = None \<Longrightarrow> StringToBigInt orgId = None \<Longrightarrow>
   getUserRole env orgId s = (Inr None, s\<lparr>issued := issued s @ [Clerk_auth]\<rparr>)"
  by (simp add: getUserRole_def auth_ok bind_def getUserRole_try_malformed try_catch_def ret_def)

lemma getUserRole_try_lookup_fails:
  assumes "StringToBigInt orgId = Some b"
      and "faults env (issued s) (Prisma ''user'' ''findUnique'') = Some e"
  shows "fst (getUserRole_try env userId orgId s) = Inl e"
  using assms
  by (simp add: getUserRole_try_def BigInt_ok getOrCreateUser_def user_findUnique_def ext_fault
      bind_def)

lemma getUserRole_try_create_fails:
  assumes "StringToBigInt orgId = Some b"
      and "faults env = (\<lambda>h c. if c = Prisma ''user'' ''create'' then Some e else None)"
      and "find (\<lambda>u. clerk_id u = userId) (users (tables s)) = None"
      and "\<not> falsy (clerk_email env)"
  shows "fst (getUserRole_try env userId orgId s) = Inl e"
  using assms
  by (simp add: getUserRole_try_def BigInt_ok getOrCreateUser_def user_findUnique_def
      currentUser_def user_create_def ext_def query_def ret_def bind_def)

lemma getUserRole_try_upsert_fails:
  assumes "StringToBigInt orgId = Some b"
      and "faults env = (\<lambda>h c. if c = Prisma ''organizationMember'' ''upsert'' then Some e else None)"
      and "find (\<lambda>u. clerk_id u = userId) (users (tables s)) = Some u"
      and "find (\<lambda>org. org_id org = b \<and> created_by org = user_id u) (organizations (tables s))
           = Some org"
  shows "fst (getUserRole_try env userId orgId s) = Inl e"
  using assms
  by (simp add: getUserRole_try_def BigInt_ok getOrCreateUser_def user_findUnique_def
      organization_findFirst_def organizationMember_upsert_def ext_def query_def ret_def bind_def)

lemma getUserRole_no_relation:
  assumes "faults env = (\<lambda>h c. None)"
      and "auth_userId env = Some userId" "userId \<noteq> []"
      and "StringToBigInt orgId = Some b"
      and "find (\<lambda>u. clerk_id u = userId) (users (tables s)) = Some u"
      and "find (\<lambda>org. org_id org = b \<and> created_by org = user_id u) (organizations (tables s))
           = None"
      and "find (is_member b (user_id u)) (organizationMembers (tables s)) = None"
  shows "fst (getUserRole env orgId s) = Inr None"
  using assms
  by (simp add: getUserRole_def auth_def getUserRole_try_def falsy_def try_catch_def BigInt_ok
      getOrCreateUser_def user_findUnique_def organization_findFirst_def
      organizationMember_findUnique_def ext_def query_def ret_def bind_def)

text \<open>
  Claim C9, for a call in which \<open>auth()\<close> returns. \<open>getUserRole\<close> then never throws: for
  every environment (whatever the store, \<open>currentUser()\<close> and the conversion of the
  identifier do), every text of an organization identifier and every state it returns a
  value. Whenever the guarded block throws, the value is null: so for a text that is no
  \<open>BigInt\<close>, for a failing user look-up, for a failing user creation and for a failing
  membership upsert. A principal with no relation to the organization gets the same null,
  and so does a request without a session.
\<close>

theorem getUserRole_never_throws:
  assumes "faults env (issued s) Clerk_auth = None"
  shows "(\<exists>r. fst (getUserRole env orgId s) = Inr r)
   \<and> (falsy (auth_userId env) \<longrightarrow> fst (getUserRole env orgId s) = Inr None)
   \<and> (\<not> falsy (auth_userId env)
        \<and> fst (getUserRole_try env (the (auth_userId env)) orgId
                  (s\<lparr>issued := issued s @ [Clerk_auth]\<rparr>)) = Inl e
      \<longrightarrow> fst (getUserRole env orgId s) = Inr None)
   \<and> (StringToBigInt orgId = None
      \<longrightarrow> getUserRole env orgId s = (Inr None, s\<lparr>issued := issued s @ [Clerk_auth]\<rparr>))
   \<and> (StringToBigInt orgId = Some b
        \<and> faults env (issued s @ [Clerk_auth]) (Prisma ''user'' ''findUnique'') = Some e
      \<longrightarrow> fst (getUserRole env orgId s) = Inr None)
   \<and> (StringToBigInt orgId = Some b
        \<and> faults env = (\<lambda>h c. if c = Prisma ''user'' ''create'' then Some e else None)
        \<and> \<not> falsy (auth_userId env)
        \<and> find (\<lambda>u. clerk_id u = the (auth_userId env)) (users (tables s)) = None
        \<and> \<not> falsy (clerk_email env)
      \<longrightarrow> fst (getUserRole env orgId s) = Inr None)
   \<and> (StringToBigInt orgId = Some b
        \<and> faults env
            = (\<lambda>h c. if c = Prisma ''organizationMember'' ''upsert'' then Some e else None)
        \<and> \<not> falsy (auth_userId env)
        \<and> find (\<lambda>u. clerk_id u = the (auth_userId env)) (users (tables s)) = Some u
        \<and> find (\<lambda>org. org_id org = b \<and> created_by org = user_id u) (organizations (tables s))
            = Some org
      \<longrightarrow> fst (getUserRole env orgId s) = Inr None)
   \<and> (faults env = (\<lambda>h c. None) \<and> \<not> falsy (auth_userId env)
        \<and> StringToBigInt orgId = Some b
        \<and> find (\<lambda>u. clerk_id u = the (auth_userId env)) (users (tables s)) = Some u
        \<and> find (\<lambda>org. org_id org = b \<and> created_by org = user_id u) (organizations (tables s))
            = None
        \<and> find (is_member b (user_id u)) (organizationMembers (tables s)) = None
      \<longrightarrow> fst (getUserRole env orgId s) = Inr None)"
proof (intro conjI impI)
  let ?s0 = "s\<lparr>issued := issued s @ [Clerk_auth]\<rparr>"
  note auth = assms
  show "\<exists>r. fst (getUserRole env orgId s) = Inr r" using auth by (rule getUserRole_total)
  show "fst (getUserRole env orgId s) = Inr None" if "falsy (auth_userId env)"
    using auth that by (rule getUserRole_unauthenticated)
  show "fst (getUserRole env orgId s) = Inr None"
    if "\<not> falsy (auth_userId env)
        \<and> fst (getUserRole_try env (the (auth_userId env)) orgId ?s0) = Inl e"
    using auth that by (simp add: getUserRole_catches)
  show "getUserRole env orgId s = (Inr None, ?s0)" if "StringToBigInt orgId = None"
    using auth that by (rule getUserRole_malformed)
  show "fst (getUserRole env orgId s) = Inr None"
    if a: "StringToBigInt orgId = Some b
        \<and> faults env (issued s @ [Clerk_auth]) (Prisma ''user'' ''findUnique'') = Some e"
  proof (cases "falsy (auth_userId env)")
    case True
    with auth show ?thesis by (rule getUserRole_unauthenticated)
  next
    case False
    from a have "fst (getUserRole_try env (the (auth_userId env)) orgId ?s0) = Inl e"
      by (simp add: getUserRole_try_lookup_fails)
    with auth False show ?thesis by (rule getUserRole_catches)
  qed
  show "fst (getUserRole env orgId s) = Inr None"
    if a: "StringToBigInt orgId = Some b
        \<and> faults env = (\<lambda>h c. if c = Prisma ''user'' ''create'' then Some e else None)
        \<and> \<not> falsy (auth_userId env)
        \<and> find (\<lambda>u. clerk_id u = the (auth_userId env)) (users (tables s)) = None
        \<and> \<not> falsy (clerk_email env)"
  proof -
    from a have "fst (getUserRole_try env (the (auth_userId env)) orgId ?s0) = Inl e"
      using getUserRole_try_create_fails [of orgId b env e "the (auth_userId env)" ?s0] by simp
    with auth a show ?thesis by (simp add: getUserRole_catches)
  qed
  show "fst (getUserRole env orgId s) = Inr None"
    if a: "StringToBigInt orgId = Some b
        \<and> faults env
            = (\<lambda>h c. if c = Prisma ''organizationMember'' ''upsert'' then Some e else None)
        \<and> \<not> falsy (auth_userId env)
        \<and> find (\<lambda>u. clerk_id u = the (auth_userId env)) (users (tables s)) = Some u
        \<and> find (\<lambda>org. org_id org = b \<and> created_by org = user_id u) (organizations (tables s))
            = Some org"
  proof -
    from a have "fst (getUserRole_try env (the (auth_userId env)) orgId ?s0) = Inl e"
      using getUserRole_try_upsert_fails [of orgId b env e "the (auth_userId env)" ?s0 u org]
      by simp
    with auth a show ?thesis by (simp add: getUserRole_catches)
  qed
  show "fst (getUserRole env orgId s) = Inr None"
    if a: "faults env = (\<lambda>h c. None) \<and> \<not> falsy (auth_userId env)
        \<and> StringToBigInt orgId = Some b
        \<and> find (\<lambda>u. clerk_id u = the (auth_userId env)) (users (tables s)) = Some u
        \<and> find (\<lambda>org. org_id org = b \<and> created_by org = user_id u) (organizations (tables s))
            = None
        \<and> find (is_member b (user_id u)) (organizationMembers (tables s)) = None"
    using a getUserRole_no_relation [of env "the (auth_userId env)" orgId b s u]
    by (auto simp: falsy_def split: option.splits)
qed

lemma sample_BigInt_abc: "StringToBigInt ''abc'' = None"
  by (simp add: StringToBigInt_def trim_def isWhiteSpace_def signedInteger_def parseRadix_def
      digitValue_def)

theorem getUserRole_never_throws_witness:
  "getUserRole sample_env ''abc'' sample_state
     = (Inr None, sample_state\<lparr>issued := [Clerk_auth]\<rparr>)
   \<and> fst (getUserRole
            (sample_env\<lparr>faults := \<lambda>h c. if c = Prisma ''user'' ''findUnique''
                                          then Some (Error ''connection lost'') else None\<rparr>)
            ''1'' sample_state) = Inr None
   \<and> fst (getUserRole
            (sample_env\<lparr>auth_userId := Some ''user_9'',
                        faults := \<lambda>h c. if c = Prisma ''user'' ''create''
                                          then Some (Error ''connection lost'') else None\<rparr>)
            ''1'' sample_state) = Inr None
   \<and> fst (getUserRole
            (sample_env\<lparr>faults := \<lambda>h c. if c = Prisma ''organizationMember'' ''upsert''
                                          then Some NonError else None\<rparr>)
            ''1'' sample_state) = Inr None
   \<and> fst (getUserRole (sample_env\<lparr>auth_userId := Some ''user_3''\<rparr>) ''1'' sample_state)
       = Inr None
   \<and> fst (getUserRole (sample_env\<lparr>auth_userId := None\<rparr>) ''1'' sample_state) = Inr None"
proof (intro conjI)
  show "getUserRole sample_env ''abc'' sample_state
          = (Inr None, sample_state\<lparr>issued := [Clerk_auth]\<rparr>)"
    using getUserRole_never_throws [of sample_env sample_state "''abc''"]
    by (simp add: sample_BigInt_abc sample_env_def sample_state_def)
next
  show "fst (getUserRole
            (sample_env\<lparr>faults := \<lambda>h c. if c = Prisma ''user'' ''findUnique''
                                          then Some (Error ''connection lost'') else None\<rparr>)
            ''1'' sample_state) = Inr None"
    using getUserRole_never_throws
      [of "sample_env\<lparr>faults := \<lambda>h c. if c = Prisma ''user'' ''findUnique''
                                          then Some (Error ''connection lost'') else None\<rparr>"
          sample_state "''1''" "Error ''connection lost''" 1]
    by (simp add: sample_BigInt_1)
next
  show "fst (getUserRole
            (sample_env\<lparr>auth_userId := Some ''user_9'',
                        faults := \<lambda>h c. if c = Prisma ''user'' ''create''
                                          then Some (Error ''connection lost'') else None\<rparr>)
            ''1'' sample_state) = Inr None"
    using getUserRole_never_throws
      [of "sample_env\<lparr>auth_userId := Some ''user_9'',
                        faults := \<lambda>h c. if c = Prisma ''user'' ''create''
                                          then Some (Error ''connection lost'') else None\<rparr>"
          sample_state "''1''" "Error ''connection lost''" 1]
    by (simp add: sample_BigInt_1 sample_env_def sample_state_def sample_db_def falsy_def)
next
  show "fst (getUserRole
            (sample_env\<lparr>faults := \<lambda>h c. if c = Prisma ''organizationMember'' ''upsert''
                                          then Some NonError else None\<rparr>)
            ''1'' sample_state) = Inr None"
    using getUserRole_never_throws
      [of "sample_env\<lparr>faults := \<lambda>h c. if c = Prisma ''organizationMember'' ''upsert''
                                          then Some NonError else None\<rparr>"
          sample_state "''1''" NonError 1
          "\<lparr>user_id = 1, clerk_id = ''user_1'', email = ''ann@example.com''\<rparr>"
          "\<lparr>org_id = 1, org_name = ''Acme'', created_by = 1\<rparr>"]
    by (simp add: sample_BigInt_1 sample_env_def sample_state_def sample_db_def falsy_def)
next
  show "fst (getUserRole (sample_env\<lparr>auth_userId := Some ''user_3''\<rparr>) ''1'' sample_state)
       = Inr None"
    using getUserRole_never_throws
      [of "sample_env\<lparr>auth_userId := Some ''user_3''\<rparr>" sample_state "''1''" _ 1
          "\<lparr>user_id = 3, clerk_id = ''user_3'', email = ''cy@example.com''\<rparr>"]
    by (simp add: sample_BigInt_1 sample_env_def sample_state_def sample_db_def falsy_def
        is_member_def)
next
  show "fst (getUserRole (sample_env\<lparr>auth_userId := None\<rparr>) ''1'' sample_state) = Inr None"
    using getUserRole_never_throws [of "sample_env\<lparr>auth_userId := None\<rparr>" sample_state "''1''"]
    by (simp add: sample_env_def falsy_def)
qed

text \<open>
  As claim C9 is worded, for every input, it fails: in a request in which \<open>auth()\<close>
  throws, \<open>getUserRole\<close> throws what \<open>auth()\<close> threw, since the call stands before the
  \<^verbatim>\<open>try\<close> block.
\<close>

theorem getUserRole_auth_throws_counterexample:
  "getUserRole sample_env_auth_throws ''1'' sample_state
   = (Inl (Error ''auth() failed''), sample_state\<lparr>issued := [Clerk_auth]\<rparr>)"
  by (simp add: getUserRole_auth_throws sample_env_auth_throws_def sample_state_def)

section \<open>What the functions of lib/auth.ts leave alone\<close>

lemma preservesD: "preserves R m \<Longrightarrow> m s = (r, s') \<Longrightarrow> R s s'"
  by (auto simp: preserves_def dest: spec [of _ s])

lemma auth_frame_refl [simp]: "auth_frame s s"
  by (simp add: auth_frame_def)

lemma auth_frame_issued [simp]: "auth_frame s (s'\<lparr>issued := h\<rparr>) = auth_frame s s'"
  "auth_frame (s\<lparr>issued := h\<rparr>) s' = auth_frame s s'"
  by (simp_all add: auth_frame_def)

lemma auth_frame_trans: "auth_frame s s1 \<Longrightarrow> auth_frame s1 s2 \<Longrightarrow> auth_frame s s2"
  by (cases "tables s", cases "tables s1", cases "tables s2") (simp add: auth_frame_def)

lemma preserves_ret [simp]: "preserves auth_frame (ret x)"
  by (simp add: preserves_def ret_def)

lemma preserves_throw [simp]: "preserves auth_frame (throw e)"
  by (simp add: preserves_def throw_def)

lemma preserves_lift [simp]: "preserves auth_frame (lift r)"
  by (simp add: preserves_def lift_def)

lemma preserves_query [simp]: "preserves auth_frame (query f)"
  by (simp add: preserves_def query_def)

lemma preserves_bind:
  assumes "preserves auth_frame m" and "\<And>x. preserves auth_frame (f x)"
  shows "preserves auth_frame (bind m f)"
  unfolding preserves_def
proof
  fix s
  obtain r s1 where m: "m s = (r, s1)" by (cases "m s")
  have a: "auth_frame s s1" using assms(1) m by (rule preservesD)
  show "auth_frame s (snd (bind m f s))"
  proof (cases r)
    case (Inl e)
    with m a show ?thesis by (simp add: bind_def)
  next
    case (Inr x)
    obtain r2 s2 where f: "f x s1 = (r2, s2)" by (cases "f x s1")
    have "auth_frame s1 s2" using assms(2) f by (rule preservesD)
    with a have "auth_frame s s2" by (rule auth_frame_trans)
    with m Inr f show ?thesis by (simp add: bind_def)
  qed
qed

lemma preserves_try_catch:
  assumes "preserves auth_frame m" and "\<And>e. preserves auth_frame (h e)"
  shows "preserves auth_frame (try_catch m h)"
  unfolding preserves_def
proof
  fix s
  obtain r s1 where m: "m s = (r, s1)" by (cases "m s")
  have a: "auth_frame s s1" using assms(1) m by (rule preservesD)
  show "auth_frame s (snd (try_catch m h s))"
  proof (cases r)
    case (Inr x)
    with m a show ?thesis by (simp add: try_catch_def)
  next
    case (Inl e)
    obtain r2 s2 where f: "h e s1 = (r2, s2)" by (cases "h e s1")
    have "auth_frame s1 s2" using assms(2) f by (rule preservesD)
    with a have "auth_frame s s2" by (rule auth_frame_trans)
    with m Inl f show ?thesis by (simp add: try_catch_def)
  qed
qed

lemma preserves_ext:
  assumes "preserves auth_frame m"
  shows "preserves auth_frame (ext env c m)"
  unfolding preserves_def
proof
  fix s
  have "auth_frame (s\<lparr>issued := issued s @ [c]\<rparr>) (snd (m (s\<lparr>issued := issued s @ [c]\<rparr>)))"
    using assms by (simp add: preserves_def)
  then show "auth_frame s (snd (ext env c m s))"
    by (simp add: ext_def Let_def split: option.splits)
qed

lemma preserves_transaction:
  "preserves auth_frame body \<Longrightarrow> preserves auth_frame (transaction env body)"
  unfolding transaction_def transaction_with_def
proof (rule preserves_ext, unfold preserves_def, rule allI)
  fix s0
  assume b: "\<forall>s. auth_frame s (snd (body s))"
  obtain r s1 where m: "body s0 = (r, s1)" by (cases "body s0")
  have a: "auth_frame s0 s1" using b m by (metis snd_conv)
  have u: "auth_frame s0 (s1\<lparr>tables := tables s0, issued := h\<rparr>)" for h
    by (simp add: auth_frame_def)
  show "auth_frame s0
          (snd (case body s0 of
                  (Inl e, s1) \<Rightarrow>
                    (Inl e, s1\<lparr>tables := tables s0, issued := issued s1 @ [Transaction_rollback]\<rparr>)
                | (Inr x, s1) \<Rightarrow>
                    (case faults env (issued s1) Transaction_commit of
                       None \<Rightarrow> (Inr x, s1\<lparr>issued := issued s1 @ [Transaction_commit]\<rparr>)
                     | Some e \<Rightarrow>
                         (Inl e, s1\<lparr>tables := tables s0,
                                     issued := issued s1 @ [Transaction_commit]\<rparr>))))"
    using m a u by (cases r) (simp_all split: option.splits)
qed

lemma preserves_auth [simp]: "preserves auth_frame (auth env)"
  unfolding auth_def by (rule preserves_ext) simp

lemma preserves_user_create [simp]: "preserves auth_frame (user_create env c m)"
  unfolding user_create_def
  by (rule preserves_ext) (simp add: preserves_def auth_frame_def Let_def)

lemma preserves_member_upsert [simp]:
  "preserves auth_frame (organizationMember_upsert env b u r)"
  unfolding organizationMember_upsert_def
  by (rule preserves_ext) (simp add: preserves_def auth_frame_def exec_def)

lemma preserves_getOrCreateUser [simp]: "preserves auth_frame (getOrCreateUser env userId)"
  unfolding getOrCreateUser_def user_findUnique_def currentUser_def
  by (auto intro!: preserves_bind preserves_ext split: option.splits)

lemma preserves_getUserRole [simp]: "preserves auth_frame (getUserRole env orgId)"
  unfolding getUserRole_def getUserRole_try_def organization_findFirst_def
    organizationMember_findUnique_def
  by (auto intro!: preserves_try_catch preserves_bind preserves_ext split: option.splits)

lemma preserves_ensureOrganizationMember [simp]:
  "preserves auth_frame (ensureOrganizationMember env orgId)"
  unfolding ensureOrganizationMember_def ensureOrganizationMember_try_def
    organization_findUnique_def organization_findMany_def organizationMember_findUnique_def
    organizationMember_findMany_def Let_def
  by (auto intro!: preserves_try_catch preserves_bind preserves_ext preserves_transaction
           split: option.splits exn.splits)

section \<open>Stock rows as lists\<close>

lemma update_first_map:
  "distinct (map k xs) \<Longrightarrow>
   update_first (\<lambda>r. k r = i) f xs = map (\<lambda>x. if k x = i then f x else x) xs"
proof (induction xs)
  case Nil
  then show ?case by simp
next
  case (Cons x xs)
  show ?case
  proof (cases "k x = i")
    case True
    with Cons.prems have "\<forall>y\<in>set xs. k y \<noteq> i" by (auto simp: image_iff)
    then have "map (\<lambda>x. if k x = i then f x else x) xs = xs" by (simp add: map_idI)
    with True show ?thesis by simp
  next
    case False
    with Cons show ?thesis by simp
  qed
qed

lemma find_map_same:
  "(\<And>x. P (g x) = P x) \<Longrightarrow> find P (map g xs) = map_option g (find P xs)"
  by (induction xs) auto

lemma find_Some_set: "find P xs = Some x \<Longrightarrow> x \<in> set xs \<and> P x"
  by (induction xs) (auto split: if_splits)

lemma fold_plus: "fold (\<lambda>r acc. acc + g r) xs (a::int) = a + sum_list (map g xs)"
  by (induction xs arbitrary: a) auto

lemma totalStock_sum:
  "totalStock d pid
   = sum_list (map quantity (filter (\<lambda>r. stock_product_id r = pid) (productStocks d)))"
  by (simp add: totalStock_def fold_plus)

lemma nextId_fresh_aux: "x \<in> set ids \<Longrightarrow> x \<le> fold max ids a"
  "a \<le> fold max ids (a::int)"
proof (induction ids arbitrary: a)
  case Nil
  { case 1 then show ?case by simp }
  { case 2 then show ?case by simp }
next
  case (Cons y ys)
  { case 1
    then show ?case
    proof (cases "x = y")
      case True
      have "max y a \<le> fold max ys (max y a)" by (rule Cons.IH(2))
      with True show ?thesis by simp
    next
      case False
      with 1 have "x \<in> set ys" by simp
      then show ?thesis using Cons.IH(1) by simp
    qed }
  { case 2
    have "max y a \<le> fold max ys (max y a)" by (rule Cons.IH(2))
    then show ?case by simp }
qed

lemma nextId_fresh: "nextId ids \<notin> set ids"
  using nextId_fresh_aux(1) [of "nextId ids" ids 0] by (auto simp: nextId_def)

text \<open>Changing the quantity of the row with a given key changes the sum over the rows of
  a product by the difference, when the row is one of the product.\<close>

lemma sum_quantity_update:
  assumes "distinct (map stock_id xs)" and "r \<in> set xs"
  shows "sum_list (map quantity (filter (\<lambda>x. stock_product_id x = pid)
           (map (\<lambda>x. if stock_id x = stock_id r then x\<lparr>quantity := q\<rparr> else x) xs)))
         = sum_list (map quantity (filter (\<lambda>x. stock_product_id x = pid) xs))
           + (if stock_product_id r = pid then q - quantity r else 0)"
  using assms
proof (induction xs)
  case Nil
  then show ?case by simp
next
  case (Cons x xs)
  show ?case
  proof (cases "x = r")
    case True
    with Cons.prems have "\<forall>y\<in>set xs. stock_id y \<noteq> stock_id r"
      by (auto simp: image_iff)
    then have "map (\<lambda>x. if stock_id x = stock_id r then x\<lparr>quantity := q\<rparr> else x) xs = xs"
      by (simp add: map_idI)
    with True show ?thesis by simp
  next
    case False
    with Cons.prems have r: "r \<in> set xs" and d: "distinct (map stock_id xs)" by auto
    with Cons.prems have "stock_id x \<noteq> stock_id r" by (auto simp: image_iff)
    with Cons.IH [OF d r] show ?thesis by simp
  qed
qed

lemma is_stock_quantity [simp]: "is_stock p w (x\<lparr>quantity := q\<rparr>) = is_stock p w x"
  by (simp add: is_stock_def)

lemma find_set_quantity:
  "find (is_stock p w) (map (\<lambda>x. if stock_id x = i then x\<lparr>quantity := q\<rparr> else x) rows)
   = map_option (\<lambda>x. if stock_id x = i then x\<lparr>quantity := q\<rparr> else x)
       (find (is_stock p w) rows)"
  by (rule find_map_same) simp

lemma ids_set_quantity [simp]:
  "map stock_id (map (\<lambda>x. if stock_id x = i then x\<lparr>quantity := q\<rparr> else x) rows)
   = map stock_id rows"
  by (induction rows) auto

lemma distinct_ids_eq:
  "distinct (map stock_id rows) \<Longrightarrow> x \<in> set rows \<Longrightarrow> y \<in> set rows \<Longrightarrow>
   stock_id x = stock_id y \<Longrightarrow> x = y"
  by (metis distinct_map inj_onD)

text \<open>The three facts about the rows after a transfer between two different warehouses,
  when the two quantities written are safe integers.\<close>

lemma transfer_rows_props:
  assumes d: "distinct (map stock_id rows)" and ne: "src \<noteq> dst"
      and r: "find (is_stock pid src) rows = Some r"
      and safe: "safe_integer (quantity r - qty)"
        "safe_integer ((case find (is_stock pid dst) rows of None \<Rightarrow> 0 | Some x \<Rightarrow> quantity x)
                       + qty)"
  shows "find (is_stock pid src) (transfer_rows pid src dst qty rows)
           = Some (r\<lparr>quantity := quantity r - qty\<rparr>)"
    and "map_option quantity (find (is_stock pid dst) (transfer_rows pid src dst qty rows))
           = Some ((case find (is_stock pid dst) rows of None \<Rightarrow> 0 | Some x \<Rightarrow> quantity x) + qty)"
    and "sum_list (map quantity (filter (\<lambda>x. stock_product_id x = pid)
             (transfer_rows pid src dst qty rows)))
           = sum_list (map quantity (filter (\<lambda>x. stock_product_id x = pid) rows))"
proof -
  let ?g = "\<lambda>x. if stock_id x = stock_id r then x\<lparr>quantity := quantity r - qty\<rparr> else x"
  let ?rows1 = "map ?g rows"
  have u1: "update_first (\<lambda>x. stock_id x = stock_id r) (\<lambda>x. x\<lparr>quantity := quantity r - qty\<rparr>) rows
            = ?rows1"
    using d by (rule update_first_map)
  have rin: "r \<in> set rows" and rs: "is_stock pid src r" using r by (auto dest: find_Some_set)
  have d1: "distinct (map stock_id ?rows1)" using d by (simp only: ids_set_quantity)
  have src1: "find (is_stock pid src) ?rows1 = Some (r\<lparr>quantity := quantity r - qty\<rparr>)"
    using r by (simp add: find_set_quantity)
  have sum1: "sum_list (map quantity (filter (\<lambda>x. stock_product_id x = pid) ?rows1))
              = sum_list (map quantity (filter (\<lambda>x. stock_product_id x = pid) rows)) - qty"
    using sum_quantity_update [OF d rin, of pid "quantity r - qty"] rs
    by (simp add: is_stock_def)
  have dst1: "find (is_stock pid dst) ?rows1 = find (is_stock pid dst) rows"
  proof (cases "find (is_stock pid dst) rows")
    case None
    then show ?thesis by (simp add: find_set_quantity)
  next
    case (Some x)
    then have "x \<in> set rows" "is_stock pid dst x" by (auto dest: find_Some_set)
    with rs ne have "x \<noteq> r" by (auto simp: is_stock_def)
    with \<open>x \<in> set rows\<close> rin d have "stock_id x \<noteq> stock_id r" by (auto dest: distinct_ids_eq)
    with Some show ?thesis by (simp add: find_set_quantity)
  qed
  have trN: "transfer_rows pid src dst qty rows
             = ?rows1 @ [\<lparr>stock_id = nextId (map stock_id ?rows1), stock_product_id = pid,
                          stock_warehouse_id = dst, quantity = qty\<rparr>]"
    if "find (is_stock pid dst) rows = None"
    using that r u1 dst1 safe by (simp add: transfer_rows_def del: map_map)
  have trS: "transfer_rows pid src dst qty rows
             = map (\<lambda>y. if stock_id y = stock_id x then y\<lparr>quantity := quantity x + qty\<rparr> else y)
                 ?rows1"
    if "find (is_stock pid dst) rows = Some x" for x
    using that r u1 dst1 safe update_first_map [OF d1, of "stock_id x"]
    by (simp add: transfer_rows_def del: map_map)
  show "find (is_stock pid src) (transfer_rows pid src dst qty rows)
           = Some (r\<lparr>quantity := quantity r - qty\<rparr>)"
  proof (cases "find (is_stock pid dst) rows")
    case None
    then show ?thesis using src1 by (simp add: trN find_app del: map_map)
  next
    case (Some x)
    then have xin: "x \<in> set rows" and xs: "is_stock pid dst x" by (auto dest: find_Some_set)
    with rs ne have "x \<noteq> r" by (auto simp: is_stock_def)
    with xin rin d have "stock_id r \<noteq> stock_id x" by (auto dest: distinct_ids_eq)
    then show ?thesis
      by (simp add: trS [OF Some] find_set_quantity [of pid src _ _ ?rows1] src1 del: map_map)
  qed
  show "map_option quantity (find (is_stock pid dst) (transfer_rows pid src dst qty rows))
           = Some ((case find (is_stock pid dst) rows of None \<Rightarrow> 0 | Some x \<Rightarrow> quantity x) + qty)"
  proof (cases "find (is_stock pid dst) rows")
    case None
    then show ?thesis using dst1
      by (simp add: trN find_app is_stock_def del: map_map)
  next
    case (Some x)
    then show ?thesis using dst1
      by (simp add: trS [OF Some] find_set_quantity [of pid dst _ _ ?rows1] del: map_map)
  qed
  show "sum_list (map quantity (filter (\<lambda>x. stock_product_id x = pid)
             (transfer_rows pid src dst qty rows)))
           = sum_list (map quantity (filter (\<lambda>x. stock_product_id x = pid) rows))"
  proof (cases "find (is_stock pid dst) rows")
    case None
    then show ?thesis using sum1 by (simp add: trN del: map_map)
  next
    case (Some x)
    with dst1 have f: "find (is_stock pid dst) ?rows1 = Some x" by simp
    then have xin: "x \<in> set ?rows1" and xs: "is_stock pid dst x"
      by (auto dest: find_Some_set simp del: set_map)
    have "sum_list (map quantity (filter (\<lambda>y. stock_product_id y = pid)
            (map (\<lambda>y. if stock_id y = stock_id x then y\<lparr>quantity := quantity x + qty\<rparr> else y) ?rows1)))
          = sum_list (map quantity (filter (\<lambda>y. stock_product_id y = pid) ?rows1))
            + (if stock_product_id x = pid then quantity x + qty - quantity x else 0)"
      using d1 xin by (rule sum_quantity_update)
    with xs sum1 show ?thesis
      by (simp add: trS [OF Some] is_stock_def del: map_map)
  qed
qed

section \<open>Stock transfer\<close>

lemma transferStock_tx_success:
  assumes "transferStock_tx env pid src dst usr qty why memo s0 = (Inr x, s1)"
  shows "\<exists>r. find (is_stock pid src) (productStocks (tables s0)) = Some r \<and> qty \<le> quantity r"
    and "tables s1 = (tables s0)
           \<lparr>productStocks := transfer_rows pid src dst qty (productStocks (tables s0)),
            stockMovements := stockMovements (tables s0)
                              @ transfer_movements pid src dst usr qty why memo\<rparr>"
  using assms
  unfolding transferStock_tx_def productStock_findFirst_def productStock_update_def
    productStock_create_def stockMovement_createMany_def
  by (auto simp: bind_def ext_def query_def exec_def ret_def throw_def Let_def transfer_rows_def
           split: option.splits sum.splits prod.splits if_splits)

lemma preserves_transferStock_pre [simp]:
  "preserves auth_frame (transferStock_pre env userId orgId productId fromWarehouseId toWarehouseId)"
  unfolding transferStock_pre_def
  by (auto intro!: preserves_bind)

lemma transferStock_pre_ids:
  assumes "transferStock_pre env userId orgId productId fromWarehouseId toWarehouseId s
           = (Inr (pid, src, dst, usr), s1)"
  shows "BigInt productId = Inr pid" "BigInt fromWarehouseId = Inr src"
    "BigInt toWarehouseId = Inr dst"
  using assms unfolding transferStock_pre_def
  by (auto simp: bind_def lift_def ret_def throw_def split: prod.splits sum.splits if_splits)

lemma BigInt_Inr_iff: "BigInt str = Inr b \<longleftrightarrow> StringToBigInt str = Some b"
  by (simp add: BigInt_def split: option.splits)

lemma transferStock_success:
  assumes "transferStock env orgId productId fromWarehouseId toWarehouseId qty why memo s
           = (Inr x, s')"
  shows "\<exists>pid src dst usr s1 s2.
           transferStock_pre env (the (auth_userId env)) orgId productId fromWarehouseId
             toWarehouseId (s\<lparr>issued := issued s @ [Clerk_auth]\<rparr>)
             = (Inr (pid, src, dst, usr), s1)
           \<and> transferStock_tx env pid src dst usr qty why memo
                (s1\<lparr>issued := issued s1 @ [Transaction_begin]\<rparr>) = (Inr (), s2)
           \<and> tables s' = tables s2 \<and> 0 < qty"
proof -
  let ?s0 = "s\<lparr>issued := issued s @ [Clerk_auth]\<rparr>"
  from assms have q: "0 < qty"
    and t: "transferStock_try env (the (auth_userId env)) orgId productId fromWarehouseId
              toWarehouseId qty why memo ?s0 = (Inr x, s')"
    by (auto simp: transferStock_def throw_def
             dest!: bind_InrE auth_InrE dest: try_catch_rethrow_InrE split: if_splits)
  from t obtain ctx s1 where pre: "transferStock_pre env (the (auth_userId env)) orgId productId
        fromWarehouseId toWarehouseId ?s0 = (Inr ctx, s1)"
    and rest: "(case ctx of (bigProductId, bigFromWarehouseId, bigToWarehouseId, usr) \<Rightarrow>
        bind (transaction env
             (transferStock_tx env bigProductId bigFromWarehouseId bigToWarehouseId usr
                qty why memo)) (\<lambda>_.
        bind (invalidateProducts env orgId) (\<lambda>_.
        bind (revalidatePath env ''/inventory'') (\<lambda>_.
        bind (revalidatePath env (''/inventory/'' @ productId)) (\<lambda>_.
          ret ()))))) s1 = (Inr x, s')"
    unfolding transferStock_try_def by (blast dest: bind_InrE)
  obtain pid src dst usr where ctx: "ctx = (pid, src, dst, usr)" by (cases ctx)
  from rest ctx obtain u1 s3 where
    tr: "transaction env (transferStock_tx env pid src dst usr qty why memo) s1 = (Inr u1, s3)"
    and post: "bind (invalidateProducts env orgId) (\<lambda>_.
        bind (revalidatePath env ''/inventory'') (\<lambda>_.
        bind (revalidatePath env (''/inventory/'' @ productId)) (\<lambda>_.
          ret ()))) s3 = (Inr x, s')"
    by (auto dest: bind_InrE)
  from post have "tables s' = tables s3" by (rule post_tables)
  moreover from tr obtain s2 where
    "transferStock_tx env pid src dst usr qty why memo
       (s1\<lparr>issued := issued s1 @ [Transaction_begin]\<rparr>) = (Inr u1, s2)"
    "s3 = s2\<lparr>issued := issued s2 @ [Transaction_commit]\<rparr>"
    by (blast dest: transaction_InrE)
  ultimately show ?thesis using pre ctx q by auto
qed

text \<open>
  A transfer between two different warehouses. A call of \<open>transferStock\<close> that returns,
  on a stock table whose rows have distinct keys and with safe integers as the quantities
  written, had a positive quantity and found a source row with at least that quantity;
  afterwards the quantity read for the source is lower
  by exactly \<open>qty\<close>, the one read for the destination is higher by exactly \<open>qty\<close> (a
  row with quantity \<open>qty\<close> is appended when there was none), exactly two ledger rows are
  appended, \<open>out\<close> at the source and \<open>in\<close> at the destination with quantity \<open>qty\<close>, and
  the total of the product over all its stock rows is unchanged.
\<close>

lemma transferStock_moves_stock:
  assumes ok: "transferStock env orgId productId fromWarehouseId toWarehouseId qty why memo s
               = (Inr x, s')"
      and ids: "StringToBigInt productId = Some pid" "StringToBigInt fromWarehouseId = Some src"
               "StringToBigInt toWarehouseId = Some dst"
      and ne: "src \<noteq> dst"
      and key: "distinct (map stock_id (productStocks (tables s)))"
      and safe: "safe_integer (stock_quantity (tables s) pid src - qty)"
                "safe_integer (stock_quantity (tables s) pid dst + qty)"
  shows "0 < qty
     \<and> (\<exists>r. find (is_stock pid src) (productStocks (tables s)) = Some r \<and> qty \<le> quantity r)
     \<and> stock_quantity (tables s') pid src = stock_quantity (tables s) pid src - qty
     \<and> stock_quantity (tables s') pid dst = stock_quantity (tables s) pid dst + qty
     \<and> (find (is_stock pid dst) (productStocks (tables s)) = None \<longrightarrow>
          (\<exists>rows sid. productStocks (tables s')
                        = rows @ [\<lparr>stock_id = sid, stock_product_id = pid,
                                   stock_warehouse_id = dst, quantity = qty\<rparr>]
                      \<and> length rows = length (productStocks (tables s))))
     \<and> (\<exists>usr. stockMovements (tables s')
               = stockMovements (tables s) @ transfer_movements pid src dst usr qty why memo)
     \<and> map (\<lambda>m. (movement_product_id m, movement_warehouse_id m, movement_type m,
                  movement_quantity m))
         (drop (length (stockMovements (tables s))) (stockMovements (tables s')))
        = [(pid, src, ''out'', qty), (pid, dst, ''in'', qty)]
     \<and> totalStock (tables s') pid = totalStock (tables s) pid"
proof -
  from transferStock_success [OF ok] obtain pid' src' dst' usr s1 s2 where
    pre: "transferStock_pre env (the (auth_userId env)) orgId productId fromWarehouseId
             toWarehouseId (s\<lparr>issued := issued s @ [Clerk_auth]\<rparr>)
           = (Inr (pid', src', dst', usr), s1)"
    and tx: "transferStock_tx env pid' src' dst' usr qty why memo
                (s1\<lparr>issued := issued s1 @ [Transaction_begin]\<rparr>) = (Inr (), s2)"
    and tb: "tables s' = tables s2" and q: "0 < qty"
    by blast
  from transferStock_pre_ids [OF pre] ids have same: "pid' = pid" "src' = src" "dst' = dst"
    by (simp_all add: BigInt_Inr_iff)
  have "auth_frame (s\<lparr>issued := issued s @ [Clerk_auth]\<rparr>) s1"
    using preserves_transferStock_pre pre by (rule preservesD)
  then have st: "productStocks (tables s1) = productStocks (tables s)"
    and mv: "stockMovements (tables s1) = stockMovements (tables s)"
    by (cases "tables s", cases "tables s1", simp add: auth_frame_def)+
  let ?rows = "productStocks (tables s)"
  from transferStock_tx_success [OF tx] same st mv tb obtain r where
    r: "find (is_stock pid src) ?rows = Some r" "qty \<le> quantity r"
    and rows': "productStocks (tables s') = transfer_rows pid src dst qty ?rows"
    and mv': "stockMovements (tables s')
              = stockMovements (tables s) @ transfer_movements pid src dst usr qty why memo"
    by auto
  have safe': "safe_integer (quantity r - qty)"
    "safe_integer ((case find (is_stock pid dst) ?rows of None \<Rightarrow> 0 | Some x \<Rightarrow> quantity x)
                   + qty)"
    using safe r(1) by (simp_all add: stock_quantity_def)
  note p = transfer_rows_props [OF key ne r(1) safe']
  have a: "stock_quantity (tables s') pid src = stock_quantity (tables s) pid src - qty"
    using p(1) r by (simp add: stock_quantity_def rows')
  have b: "stock_quantity (tables s') pid dst = stock_quantity (tables s) pid dst + qty"
    using p(2) by (auto simp: stock_quantity_def rows' split: option.splits)
  have c: "totalStock (tables s') pid = totalStock (tables s) pid"
    using p(3) by (simp add: totalStock_sum rows')
  have n: "find (is_stock pid dst) ?rows = None \<longrightarrow>
          (\<exists>rows sid. productStocks (tables s')
                        = rows @ [\<lparr>stock_id = sid, stock_product_id = pid,
                                   stock_warehouse_id = dst, quantity = qty\<rparr>]
                      \<and> length rows = length ?rows)"
  proof
    assume none: "find (is_stock pid dst) ?rows = None"
    have nm: "number_minus (quantity r) qty = quantity r - qty" using safe'(1) by simp
    let ?rows1 = "update_first (\<lambda>x. stock_id x = stock_id r)
                    (\<lambda>x. x\<lparr>quantity := quantity r - qty\<rparr>) ?rows"
    have u: "?rows1 = map (\<lambda>x. if stock_id x = stock_id r
                                 then x\<lparr>quantity := quantity r - qty\<rparr> else x) ?rows"
      using key by (rule update_first_map)
    have "find (is_stock pid dst) ?rows1 = None"
      using none by (simp only: u find_set_quantity) simp
    then have "productStocks (tables s')
          = ?rows1 @ [\<lparr>stock_id = nextId (map stock_id ?rows1), stock_product_id = pid,
                       stock_warehouse_id = dst, quantity = qty\<rparr>]"
      using r nm by (simp add: rows' transfer_rows_def Let_def)
    moreover have "length ?rows1 = length ?rows" by (simp only: u length_map)
    ultimately show "\<exists>rows sid. productStocks (tables s')
                        = rows @ [\<lparr>stock_id = sid, stock_product_id = pid,
                                   stock_warehouse_id = dst, quantity = qty\<rparr>]
                      \<and> length rows = length ?rows"
      by blast
  qed
  have m: "map (\<lambda>m. (movement_product_id m, movement_warehouse_id m, movement_type m,
                  movement_quantity m))
         (drop (length (stockMovements (tables s))) (stockMovements (tables s')))
        = [(pid, src, ''out'', qty), (pid, dst, ''in'', qty)]"
    by (simp add: mv' transfer_movements_def)
  from q r a b n mv' m c show ?thesis by blast
qed

subsection \<open>A transfer without enough stock\<close>

lemma transferStock_tx_insufficient:
  assumes "case find (is_stock pid src) (productStocks (tables s0)) of
             None \<Rightarrow> True | Some r \<Rightarrow> quantity r < qty"
  shows "\<exists>e s1. transferStock_tx env pid src dst usr qty why memo s0 = (Inl e, s1)
           \<and> (faults env (issued s0) (Prisma ''productStock'' ''findFirst'') = None
                \<longrightarrow> e = Error ''Insufficient stock in source warehouse'')"
  using assms
  unfolding transferStock_tx_def productStock_findFirst_def
  by (auto simp: bind_def ext_def query_def throw_def Let_def split: option.splits)

lemma transaction_fails:
  assumes "\<And>s0. tables s0 = tables s \<Longrightarrow> \<exists>e s1. body s0 = (Inl e, s1)"
  shows "\<exists>e s'. transaction env body s = (Inl e, s') \<and> tables s' = tables s"
proof -
  from assms [of "s\<lparr>issued := issued s @ [Transaction_begin]\<rparr>"]
  obtain e s1 where "body (s\<lparr>issued := issued s @ [Transaction_begin]\<rparr>) = (Inl e, s1)"
    by auto
  then show ?thesis
    by (auto simp: transaction_def transaction_with_def ext_def Let_def split: option.splits)
qed

lemma transferStock_try_insufficient:
  assumes ids: "StringToBigInt productId = Some pid" "StringToBigInt fromWarehouseId = Some src"
      and short: "case find (is_stock pid src) (productStocks (tables s)) of
                    None \<Rightarrow> True | Some r \<Rightarrow> quantity r < qty"
  shows "\<exists>e s'. transferStock_try env userId orgId productId fromWarehouseId toWarehouseId
                   qty why memo s = (Inl e, s')
           \<and> productStocks (tables s') = productStocks (tables s)
           \<and> stockMovements (tables s') = stockMovements (tables s)"
proof -
  obtain r s1 where pre: "transferStock_pre env userId orgId productId fromWarehouseId
      toWarehouseId s = (r, s1)"
    by (cases "transferStock_pre env userId orgId productId fromWarehouseId toWarehouseId s")
  have "auth_frame s s1" using preserves_transferStock_pre pre by (rule preservesD)
  then have st: "productStocks (tables s1) = productStocks (tables s)"
    and mv: "stockMovements (tables s1) = stockMovements (tables s)"
    by (cases "tables s", cases "tables s1", simp add: auth_frame_def)+
  show ?thesis
  proof (cases r)
    case (Inl e)
    with pre st mv show ?thesis by (simp add: transferStock_try_def bind_def)
  next
    case (Inr ctx)
    obtain pid' src' dst usr where ctx: "ctx = (pid', src', dst, usr)" by (cases ctx)
    from pre Inr ctx have "transferStock_pre env userId orgId productId fromWarehouseId
      toWarehouseId s = (Inr (pid', src', dst, usr), s1)" by simp
    from transferStock_pre_ids [OF this] ids
    have same: "pid' = pid" "src' = src" by (simp_all add: BigInt_Inr_iff)
    have "\<exists>e s'. transaction env (transferStock_tx env pid src dst usr qty why memo) s1
                   = (Inl e, s') \<and> tables s' = tables s1"
    proof (rule transaction_fails)
      fix s0 :: state assume "tables s0 = tables s1"
      with short st have "case find (is_stock pid src) (productStocks (tables s0)) of
             None \<Rightarrow> True | Some r \<Rightarrow> quantity r < qty" by simp
      from transferStock_tx_insufficient [OF this]
      show "\<exists>e s1. transferStock_tx env pid src dst usr qty why memo s0 = (Inl e, s1)" by blast
    qed
    then obtain e s' where
      "transaction env (transferStock_tx env pid src dst usr qty why memo) s1 = (Inl e, s')"
      "tables s' = tables s1" by blast
    with pre Inr ctx same st mv show ?thesis
      by (simp add: transferStock_try_def bind_def)
  qed
qed

lemma transferStock_try_insufficient_error:
  assumes ids: "StringToBigInt productId = Some pid" "StringToBigInt fromWarehouseId = Some src"
      and short: "case find (is_stock pid src) (productStocks (tables s)) of
                    None \<Rightarrow> True | Some r \<Rightarrow> quantity r < qty"
      and pre: "transferStock_pre env userId orgId productId fromWarehouseId toWarehouseId s
                = (Inr ctx, s1)"
      and nofault: "faults env (issued s1) Transaction_begin = None"
        "faults env (issued s1 @ [Transaction_begin]) (Prisma ''productStock'' ''findFirst'') = None"
  shows "fst (transferStock_try env userId orgId productId fromWarehouseId toWarehouseId
                   qty why memo s) = Inl (Error ''Insufficient stock in source warehouse'')"
proof -
  obtain pid' src' dst usr where ctx: "ctx = (pid', src', dst, usr)" by (cases ctx)
  from pre ctx have "transferStock_pre env userId orgId productId fromWarehouseId
      toWarehouseId s = (Inr (pid', src', dst, usr), s1)" by simp
  from transferStock_pre_ids [OF this] ids
  have same: "pid' = pid" "src' = src" by (simp_all add: BigInt_Inr_iff)
  have "auth_frame s s1" using preserves_transferStock_pre pre by (rule preservesD)
  then have st: "productStocks (tables s1) = productStocks (tables s)"
    by (cases "tables s", cases "tables s1", simp add: auth_frame_def)
  let ?s0 = "s1\<lparr>issued := issued s1 @ [Transaction_begin]\<rparr>"
  from short st have "case find (is_stock pid src) (productStocks (tables ?s0)) of
             None \<Rightarrow> True | Some r \<Rightarrow> quantity r < qty" by simp
  from transferStock_tx_insufficient [OF this, of env dst usr why memo] nofault(2)
  obtain s2 where "transferStock_tx env pid src dst usr qty why memo ?s0
      = (Inl (Error ''Insufficient stock in source warehouse''), s2)"
    by auto
  with nofault(1) obtain s3 where
    "transaction env (transferStock_tx env pid src dst usr qty why memo) s1
      = (Inl (Error ''Insufficient stock in source warehouse''), s3)"
    by (simp add: transaction_def transaction_with_def ext_def Let_def)
  with pre ctx same show ?thesis
    by (simp add: transferStock_try_def bind_def)
qed

text \<open>
  Claim C4. When the source row of the product is absent, or holds less than the quantity
  asked for, \<open>transferStock\<close> throws, whatever the environment, and the stock table and
  the ledger are what they were. When \<open>auth()\<close> returns, the call passes its validation
  and the statements before the transaction, and the store lets the transaction begin and
  read the source row, the error is the one of insufficient stock.
\<close>

theorem transferStock_insufficient:
  assumes ids: "StringToBigInt productId = Some pid" "StringToBigInt fromWarehouseId = Some src"
      and short: "case find (is_stock pid src) (productStocks (tables s)) of
                    None \<Rightarrow> True | Some r \<Rightarrow> quantity r < qty"
  shows "\<exists>e s'. transferStock env orgId productId fromWarehouseId toWarehouseId qty why memo s
                 = (Inl e, s')
           \<and> productStocks (tables s') = productStocks (tables s)
           \<and> stockMovements (tables s') = stockMovements (tables s)
           \<and> (faults env (issued s) Clerk_auth = None
                \<and> \<not> falsy (auth_userId env) \<and> orgId \<noteq> [] \<and> productId \<noteq> []
                \<and> fromWarehouseId \<noteq> [] \<and> toWarehouseId \<noteq> [] \<and> 0 < qty
                \<and> (\<exists>ctx s1. transferStock_pre env (the (auth_userId env)) orgId productId
                               fromWarehouseId toWarehouseId
                               (s\<lparr>issued := issued s @ [Clerk_auth]\<rparr>) = (Inr ctx, s1)
                      \<and> faults env (issued s1) Transaction_begin = None
                      \<and> faults env (issued s1 @ [Transaction_begin])
                           (Prisma ''productStock'' ''findFirst'') = None)
              \<longrightarrow> e = Error ''Insufficient stock in source warehouse'')"
proof (cases "faults env (issued s) Clerk_auth")
  case (Some e)
  then show ?thesis by (simp add: transferStock_def bind_auth_fault)
next
  case None
  let ?s0 = "s\<lparr>issued := issued s @ [Clerk_auth]\<rparr>"
  note after_auth = bind_auth_ok [OF None]
  show ?thesis
  proof (cases "\<not> falsy (auth_userId env) \<and> orgId \<noteq> [] \<and> productId \<noteq> []
                \<and> fromWarehouseId \<noteq> [] \<and> toWarehouseId \<noteq> [] \<and> 0 < qty")
    case False
    then show ?thesis by (auto simp: transferStock_def after_auth throw_def)
  next
    case True
    let ?body = "transferStock_try env (the (auth_userId env)) orgId productId fromWarehouseId
                  toWarehouseId qty why memo"
    from short have short0: "case find (is_stock pid src) (productStocks (tables ?s0)) of
                    None \<Rightarrow> True | Some r \<Rightarrow> quantity r < qty" by simp
    from transferStock_try_insufficient [OF ids short0]
    obtain e s' where t: "?body ?s0 = (Inl e, s')"
      and fr: "productStocks (tables s') = productStocks (tables s)"
              "stockMovements (tables s') = stockMovements (tables s)"
      by fastforce
    let ?e = "case e of Error message \<Rightarrow> e
              | NonError \<Rightarrow> Error ''Failed to transfer stock. Please try again.''"
    have r: "transferStock env orgId productId fromWarehouseId toWarehouseId qty why memo s
             = (Inl ?e, s')"
      using True t
      by (simp add: transferStock_def after_auth try_catch_def throw_def split: exn.splits)
    have "?e = Error ''Insufficient stock in source warehouse''"
      if "transferStock_pre env (the (auth_userId env)) orgId productId
            fromWarehouseId toWarehouseId ?s0 = (Inr ctx, s1)"
         "faults env (issued s1) Transaction_begin = None"
         "faults env (issued s1 @ [Transaction_begin]) (Prisma ''productStock'' ''findFirst'') = None"
      for ctx s1
      using transferStock_try_insufficient_error [OF ids short0 that, where why = why and memo = memo] t by simp
    with r fr show ?thesis by blast
  qed
qed

subsection \<open>Transfers on the sample data\<close>

lemmas eval_defs =
  ensureOrganizationMember_def ensureOrganizationMember_try_def
  getUserRole_def getUserRole_try_def getOrCreateUser_def hasPermission_def auth_def
  convertOrgId_def BigInt_def StringToBigInt_def trim_def isWhiteSpace_def signedInteger_def
  parseRadix_def digitValue_def isNumeric_def falsy_def safe_integer_def
  user_findUnique_def organization_findFirst_def organization_findUnique_def
  organizationMember_findUnique_def organizationMember_upsert_def upsert_member_def
  productStock_findFirst_def productStock_update_def productStock_create_def
  stockMovement_createMany_def stockMovement_create_def invalidateProducts_def
  revalidatePath_def transaction_def transaction_with_def
  bind_def ret_def throw_def lift_def try_catch_def ext_def query_def exec_def Let_def
  is_member_def is_stock_def nextId_def
  sample_env_def sample_state_def sample_db_def

lemmas transfer_defs =
  transferStock_def transferStock_try_def transferStock_pre_def transferStock_tx_def

lemma toString_1: "toString 1 = ''1''"
  by code_simp

lemma sample_BigInt_2: "StringToBigInt ''2'' = Some 2"
  by (simp add: StringToBigInt_def trim_def isWhiteSpace_def signedInteger_def parseRadix_def
      digitValue_def)

lemma sample_transfer_ok:
  "fst (transferStock sample_env ''1'' ''1'' ''1'' ''2'' 2 ''rebalance'' None sample_state)
   = Inr ()"
  by (simp add: transfer_defs eval_defs)

lemma transferStock_moves_stock_sample:
  "stock_quantity (tables (snd (transferStock sample_env ''1'' ''1'' ''1'' ''2'' 2 ''rebalance''
       None sample_state))) 1 1 = 3
   \<and> stock_quantity (tables (snd (transferStock sample_env ''1'' ''1'' ''1'' ''2'' 2 ''rebalance''
       None sample_state))) 1 2 = 2
   \<and> totalStock (tables (snd (transferStock sample_env ''1'' ''1'' ''1'' ''2'' 2 ''rebalance''
       None sample_state))) 1 = 5
   \<and> map (\<lambda>m. (movement_product_id m, movement_warehouse_id m, movement_type m,
                movement_quantity m))
       (stockMovements (tables (snd (transferStock sample_env ''1'' ''1'' ''1'' ''2'' 2
          ''rebalance'' None sample_state))))
      = [(1, 1, ''out'', 2), (1, 2, ''in'', 2)]"
proof -
  let ?R = "transferStock sample_env ''1'' ''1'' ''1'' ''2'' 2 ''rebalance'' None sample_state"
  have ok: "?R = (Inr (), snd ?R)" using sample_transfer_ok by (simp add: prod_eq_iff)
  have key: "distinct (map stock_id (productStocks (tables sample_state)))"
    by (simp add: sample_state_def sample_db_def)
  have ne: "(1::int) \<noteq> 2" by simp
  have safe: "safe_integer (stock_quantity (tables sample_state) 1 1 - 2)"
    "safe_integer (stock_quantity (tables sample_state) 1 2 + 2)"
    by (simp_all add: safe_integer_def stock_quantity_def sample_state_def sample_db_def
        is_stock_def)
  from transferStock_moves_stock
    [OF ok sample_BigInt_1 sample_BigInt_1 sample_BigInt_2 ne key safe]
  show ?thesis
    by (simp add: stock_quantity_def totalStock_def sample_state_def sample_db_def is_stock_def)
qed

text \<open>
  With the same warehouse as source and destination the call returns as well: the source
  row is lowered and raised again, and two ledger rows are appended.
\<close>

lemma sample_transfer_same:
  assumes "0 < qty" and "qty \<le> 5"
  shows "transferStock sample_env ''1'' ''1'' ''1'' ''1'' qty ''recount'' None sample_state
   = (Inr (),
      \<lparr>tables = sample_db
         \<lparr>organizationMembers :=
            [\<lparr>member_org_id = 1, member_user_id = 2, role = ''writer''\<rparr>,
             \<lparr>member_org_id = 1, member_user_id = 1, role = ''admin''\<rparr>],
          stockMovements :=
            transfer_movements 1 1 1
              \<lparr>user_id = 1, clerk_id = ''user_1'', email = ''ann@example.com''\<rparr>
              qty ''recount'' None\<rparr>,
       issued =
         [Clerk_auth,
          Clerk_auth, Prisma ''user'' ''findUnique'', Prisma ''organization'' ''findUnique'',
          Transaction_begin, Prisma ''organizationMember'' ''upsert'', Transaction_commit,
          Clerk_auth, Prisma ''user'' ''findUnique'', Prisma ''organization'' ''findFirst'',
          Prisma ''organizationMember'' ''upsert'',
          Prisma ''user'' ''findUnique'',
          Transaction_begin, Prisma ''productStock'' ''findFirst'',
          Prisma ''productStock'' ''update'', Prisma ''productStock'' ''findFirst'',
          Prisma ''productStock'' ''update'', Prisma ''stockMovement'' ''createMany'',
          Transaction_commit, Cache_invalidateProducts ''1'',
          Next_revalidatePath ''/inventory'', Next_revalidatePath ''/inventory/1'']\<rparr>)"
  using assms by (simp add: transfer_defs eval_defs)

text \<open>
  Claim C3 says of every call that returns, with a positive quantity and a source row
  holding at least that quantity, that the stock of the source goes down by the quantity
  and that of the destination goes up by it. The action accepts a transfer from a
  warehouse to itself: on the sample data the call with warehouse 1 as source and as
  destination, quantity 2 and a row of 5 returns, and the quantity read for the warehouse
  afterwards is 5, neither 3 nor 7.
\<close>

theorem transferStock_same_warehouse_not_moved:
  "fst (transferStock sample_env ''1'' ''1'' ''1'' ''1'' 2 ''recount'' None sample_state) = Inr ()
   \<and> find (is_stock 1 1) (productStocks (tables sample_state))
       = Some \<lparr>stock_id = 1, stock_product_id = 1, stock_warehouse_id = 1, quantity = 5\<rparr>
   \<and> stock_quantity (tables sample_state) 1 1 = 5
   \<and> stock_quantity (tables (snd (transferStock sample_env ''1'' ''1'' ''1'' ''1'' 2 ''recount''
         None sample_state))) 1 1 = 5"
  by (simp add: sample_transfer_same)
     (simp add: stock_quantity_def sample_state_def sample_db_def is_stock_def)

text \<open>
  Claim C5 asks that a transfer from a warehouse to itself fails before anything is
  written. The action has no such test: on the sample data the call with warehouse 1 as
  source and as destination returns, leaves the stock rows as they were, and appends the
  two ledger rows, both at warehouse 1.
\<close>

theorem transferStock_same_warehouse_accepted:
  "fst (transferStock sample_env ''1'' ''1'' ''1'' ''1'' 5 ''recount'' None sample_state) = Inr ()
   \<and> productStocks (tables (snd (transferStock sample_env ''1'' ''1'' ''1'' ''1'' 5 ''recount''
         None sample_state)))
      = [\<lparr>stock_id = 1, stock_product_id = 1, stock_warehouse_id = 1, quantity = 5\<rparr>]
   \<and> stockMovements (tables (snd (transferStock sample_env ''1'' ''1'' ''1'' ''1'' 5 ''recount''
         None sample_state)))
      = [\<lparr>movement_product_id = 1, movement_warehouse_id = 1, movement_type = ''out'',
          movement_quantity = 5, reason = ''Transfer to warehouse 1: recount'',
          movement_notes = None, movement_created_by = 1\<rparr>,
         \<lparr>movement_product_id = 1, movement_warehouse_id = 1, movement_type = ''in'',
          movement_quantity = 5, reason = ''Transfer from warehouse 1: recount'',
          movement_notes = None, movement_created_by = 1\<rparr>]"
  by (simp add: sample_transfer_same)
     (simp add: transfer_movements_def toString_1 sample_db_def)

lemma sample_transfer_pre:
  "\<exists>s1. transferStock_pre sample_env ''user_1'' ''1'' ''1'' ''1'' ''2''
           (sample_state\<lparr>issued := issued sample_state @ [Clerk_auth]\<rparr>)
         = (Inr (1, 1, 2, \<lparr>user_id = 1, clerk_id = ''user_1'', email = ''ann@example.com''\<rparr>), s1)"
  by (simp add: transferStock_pre_def eval_defs)

theorem transferStock_insufficient_witness:
  "\<exists>s'. transferStock sample_env ''1'' ''1'' ''1'' ''2'' 9 ''rebalance'' None sample_state
          = (Inl (Error ''Insufficient stock in source warehouse''), s')
        \<and> productStocks (tables s')
            = [\<lparr>stock_id = 1, stock_product_id = 1, stock_warehouse_id = 1, quantity = 5\<rparr>]
        \<and> stockMovements (tables s') = []"
proof -
  have short: "case find (is_stock 1 1) (productStocks (tables sample_state)) of
                 None \<Rightarrow> True | Some r \<Rightarrow> quantity r < 9"
    by (simp add: sample_state_def sample_db_def is_stock_def)
  from transferStock_insufficient [OF sample_BigInt_1 sample_BigInt_1 short,
      of sample_env "''1''" "''2''" "''rebalance''" None]
  obtain e s' where
    r: "transferStock sample_env ''1'' ''1'' ''1'' ''2'' 9 ''rebalance'' None sample_state
        = (Inl e, s')"
    and st: "productStocks (tables s') = productStocks (tables sample_state)"
    and mv: "stockMovements (tables s') = stockMovements (tables sample_state)"
    and e: "faults sample_env (issued sample_state) Clerk_auth = None
                \<and> \<not> falsy (auth_userId sample_env) \<and> ''1'' \<noteq> [] \<and> ''1'' \<noteq> []
                \<and> ''1'' \<noteq> [] \<and> ''2'' \<noteq> [] \<and> (0::int) < 9
                \<and> (\<exists>ctx s1. transferStock_pre sample_env (the (auth_userId sample_env)) ''1'' ''1''
                               ''1'' ''2''
                               (sample_state\<lparr>issued := issued sample_state @ [Clerk_auth]\<rparr>)
                             = (Inr ctx, s1)
                      \<and> faults sample_env (issued s1) Transaction_begin = None
                      \<and> faults sample_env (issued s1 @ [Transaction_begin])
                           (Prisma ''productStock'' ''findFirst'') = None)
              \<longrightarrow> e = Error ''Insufficient stock in source warehouse''"
    by blast
  from sample_transfer_pre have "\<exists>ctx s1. transferStock_pre sample_env (the (auth_userId sample_env))
        ''1'' ''1'' ''1'' ''2'' (sample_state\<lparr>issued := issued sample_state @ [Clerk_auth]\<rparr>)
        = (Inr ctx, s1)
      \<and> faults sample_env (issued s1) Transaction_begin = None
      \<and> faults sample_env (issued s1 @ [Transaction_begin])
           (Prisma ''productStock'' ''findFirst'') = None"
    by (auto simp: sample_env_def)
  with e have "e = Error ''Insufficient stock in source warehouse''"
    by (simp add: sample_env_def falsy_def)
  with r st mv show ?thesis by (simp add: sample_state_def sample_db_def)
qed

section \<open>Stock adjustment\<close>

lemma adjust_rows_quantity:
  assumes d: "distinct (map stock_id rows)"
      and safe: "safe_integer ((case find (is_stock pid wid) rows of
                                  None \<Rightarrow> 0 | Some r \<Rightarrow> quantity r) + adjustment)"
  shows "map_option quantity (find (is_stock pid wid) (adjust_rows pid wid adjustment rows))
         = Some (case find (is_stock pid wid) rows of
                   None \<Rightarrow> max 0 adjustment | Some r \<Rightarrow> quantity r + adjustment)"
proof (cases "find (is_stock pid wid) rows")
  case None
  then show ?thesis by (simp add: adjust_rows_def find_app is_stock_def)
next
  case (Some r)
  have "update_first (\<lambda>x. stock_id x = stock_id r) (\<lambda>x. x\<lparr>quantity := quantity r + adjustment\<rparr>) rows
        = map (\<lambda>x. if stock_id x = stock_id r then x\<lparr>quantity := quantity r + adjustment\<rparr> else x) rows"
    using d by (rule update_first_map)
  with Some safe show ?thesis by (simp add: adjust_rows_def find_set_quantity del: map_map)
qed

lemma updateProductStock_tx_success:
  assumes "updateProductStock_tx env pid wid usr adjustment s0 = (Inr x, s1)"
      and "safe_integer (stock_quantity (tables s0) pid wid + adjustment)"
  shows "0 \<le> stock_quantity (tables s0) pid wid + adjustment"
    and "tables s1 = (tables s0)
           \<lparr>productStocks := adjust_rows pid wid adjustment (productStocks (tables s0)),
            stockMovements := stockMovements (tables s0)
                              @ [adjustment_movement pid wid usr adjustment]\<rparr>"
  using assms
  unfolding updateProductStock_tx_def productStock_findFirst_def productStock_update_def
    productStock_create_def stockMovement_create_def adjustment_movement_def
  by (auto simp: bind_def ext_def query_def exec_def ret_def throw_def Let_def adjust_rows_def
           stock_quantity_def
           split: option.splits sum.splits prod.splits if_splits)

lemma updateProductStock_tx_insufficient:
  assumes "stock_quantity (tables s0) pid wid + adjustment < 0"
      and "safe_integer (stock_quantity (tables s0) pid wid + adjustment)"
  shows "\<exists>e s1. updateProductStock_tx env pid wid usr adjustment s0 = (Inl e, s1)
           \<and> (faults env (issued s0) (Prisma ''productStock'' ''findFirst'') = None
                \<longrightarrow> e = Error ''Insufficient stock for this adjustment'')"
  using assms
  unfolding updateProductStock_tx_def productStock_findFirst_def
  by (auto simp: bind_def ext_def query_def throw_def Let_def stock_quantity_def
           split: option.splits)

lemma find_stock_id:
  "find (is_stock pid wid) rows = Some r \<Longrightarrow> find (\<lambda>x. stock_id x = stock_id r) rows \<noteq> None"
  by (induction rows) (auto split: if_splits)

lemma updateProductStock_tx_runs:
  assumes ok: "0 \<le> stock_quantity (tables s0) pid wid + adjustment"
      and nofault: "\<And>h c. faults env (issued s0 @ h) c = None"
      and safe: "safe_integer (stock_quantity (tables s0) pid wid + adjustment)"
  shows "\<exists>s1. updateProductStock_tx env pid wid usr adjustment s0 = (Inr (), s1)
              \<and> (\<forall>h c. faults env (issued s1 @ h) c = None)"
proof -
  have n0: "\<And>c. faults env (issued s0) c = None" using nofault [of "[]"] by simp
  show ?thesis
  proof (cases "find (is_stock pid wid) (productStocks (tables s0))")
    case None
    with ok n0 nofault safe show ?thesis
      unfolding updateProductStock_tx_def productStock_findFirst_def productStock_update_def
        productStock_create_def stockMovement_create_def
      by (simp add: bind_def ext_def query_def exec_def ret_def throw_def Let_def stock_quantity_def)
  next
    case (Some r)
    from find_stock_id [OF Some] obtain r' where
      "find (\<lambda>x. stock_id x = stock_id r) (productStocks (tables s0)) = Some r'" by auto
    with Some ok n0 nofault safe show ?thesis
      unfolding updateProductStock_tx_def productStock_findFirst_def productStock_update_def
        productStock_create_def stockMovement_create_def
      by (simp add: bind_def ext_def query_def exec_def ret_def throw_def Let_def stock_quantity_def)
  qed
qed

lemma preserves_updateProductStock_pre [simp]:
  "preserves auth_frame (updateProductStock_pre env userId orgId productId warehouseId)"
  unfolding updateProductStock_pre_def
  by (auto intro!: preserves_bind)

lemma updateProductStock_pre_ids:
  assumes "updateProductStock_pre env userId orgId productId warehouseId s
           = (Inr (pid, wid, usr), s1)"
  shows "BigInt productId = Inr pid" "BigInt warehouseId = Inr wid"
  using assms unfolding updateProductStock_pre_def
  by (auto simp: bind_def lift_def ret_def throw_def split: prod.splits sum.splits if_splits)


lemma transaction_runs:
  assumes "body (s\<lparr>issued := issued s @ [Transaction_begin]\<rparr>) = (Inr x, s2)"
      and "faults env (issued s) Transaction_begin = None"
      and "faults env (issued s2) Transaction_commit = None"
  shows "transaction env body s = (Inr x, s2\<lparr>issued := issued s2 @ [Transaction_commit]\<rparr>)"
  using assms by (simp add: transaction_def transaction_with_def ext_def Let_def)

lemma post_runs:
  assumes "\<And>h c. faults env (issued s @ h) c = None"
  shows "\<exists>s'. bind (invalidateProducts env orgId) (\<lambda>_.
        bind (revalidatePath env p1) (\<lambda>_.
        bind (revalidatePath env p2) (\<lambda>_. ret y))) s = (Inr y, s')"
  using assms assms [of "[]"]
  by (simp add: invalidateProducts_def revalidatePath_def bind_def ext_def ret_def Let_def)

lemma updateProductStock_success:
  assumes "updateProductStock env orgId productId warehouseId adjustment s = (Inr x, s')"
  shows "\<exists>pid wid usr s1 s2.
           updateProductStock_pre env (the (auth_userId env)) orgId productId warehouseId
             (s\<lparr>issued := issued s @ [Clerk_auth]\<rparr>) = (Inr (pid, wid, usr), s1)
           \<and> updateProductStock_tx env pid wid usr adjustment
                (s1\<lparr>issued := issued s1 @ [Transaction_begin]\<rparr>) = (Inr (), s2)
           \<and> tables s' = tables s2"
proof -
  let ?s0 = "s\<lparr>issued := issued s @ [Clerk_auth]\<rparr>"
  from assms have
    t: "updateProductStock_try env (the (auth_userId env)) orgId productId warehouseId
              adjustment ?s0 = (Inr x, s')"
    by (auto simp: updateProductStock_def throw_def
             dest!: bind_InrE auth_InrE dest: try_catch_rethrow_InrE split: if_splits)
  from t obtain ctx s1 where pre: "updateProductStock_pre env (the (auth_userId env)) orgId
        productId warehouseId ?s0 = (Inr ctx, s1)"
    and rest: "(case ctx of (bigProductId, bigWarehouseId, usr) \<Rightarrow>
        bind (transaction env
             (updateProductStock_tx env bigProductId bigWarehouseId usr adjustment)) (\<lambda>_.
        bind (invalidateProducts env orgId) (\<lambda>_.
        bind (revalidatePath env ''/inventory'') (\<lambda>_.
        bind (revalidatePath env (''/inventory/'' @ productId)) (\<lambda>_.
          ret ()))))) s1 = (Inr x, s')"
    unfolding updateProductStock_try_def by (blast dest: bind_InrE)
  obtain pid wid usr where ctx: "ctx = (pid, wid, usr)" by (cases ctx)
  from rest ctx obtain u1 s3 where
    tr: "transaction env (updateProductStock_tx env pid wid usr adjustment) s1 = (Inr u1, s3)"
    and post: "bind (invalidateProducts env orgId) (\<lambda>_.
        bind (revalidatePath env ''/inventory'') (\<lambda>_.
        bind (revalidatePath env (''/inventory/'' @ productId)) (\<lambda>_.
          ret ()))) s3 = (Inr x, s')"
    by (auto dest: bind_InrE)
  from post have "tables s' = tables s3" by (rule post_tables)
  moreover from tr obtain s2 where
    "updateProductStock_tx env pid wid usr adjustment
       (s1\<lparr>issued := issued s1 @ [Transaction_begin]\<rparr>) = (Inr u1, s2)"
    "s3 = s2\<lparr>issued := issued s2 @ [Transaction_commit]\<rparr>"
    by (blast dest: transaction_InrE)
  ultimately show ?thesis using pre ctx by auto
qed

lemma updateProductStock_try_insufficient:
  assumes ids: "StringToBigInt productId = Some pid" "StringToBigInt warehouseId = Some wid"
      and short: "stock_quantity (tables s) pid wid + adjustment < 0"
      and safe: "safe_integer (stock_quantity (tables s) pid wid + adjustment)"
  shows "\<exists>e s'. updateProductStock_try env userId orgId productId warehouseId adjustment s
                   = (Inl e, s')
           \<and> productStocks (tables s') = productStocks (tables s)
           \<and> stockMovements (tables s') = stockMovements (tables s)
           \<and> (\<forall>ctx s1. updateProductStock_pre env userId orgId productId warehouseId s
                          = (Inr ctx, s1)
                  \<and> faults env (issued s1) Transaction_begin = None
                  \<and> faults env (issued s1 @ [Transaction_begin])
                       (Prisma ''productStock'' ''findFirst'') = None
                \<longrightarrow> e = Error ''Insufficient stock for this adjustment'')"
proof -
  obtain r s1 where pre: "updateProductStock_pre env userId orgId productId warehouseId s
      = (r, s1)"
    by (cases "updateProductStock_pre env userId orgId productId warehouseId s")
  have "auth_frame s s1" using preserves_updateProductStock_pre pre by (rule preservesD)
  then have st: "productStocks (tables s1) = productStocks (tables s)"
    and mv: "stockMovements (tables s1) = stockMovements (tables s)"
    by (cases "tables s", cases "tables s1", simp add: auth_frame_def)+
  show ?thesis
  proof (cases r)
    case (Inl e)
    with pre st mv show ?thesis by (simp add: updateProductStock_try_def bind_def)
  next
    case (Inr ctx)
    obtain pid' wid' usr where ctx: "ctx = (pid', wid', usr)" by (cases ctx)
    from pre Inr ctx have "updateProductStock_pre env userId orgId productId warehouseId s
        = (Inr (pid', wid', usr), s1)" by simp
    from updateProductStock_pre_ids [OF this] ids
    have same: "pid' = pid" "wid' = wid" by (simp_all add: BigInt_Inr_iff)
    let ?s0 = "s1\<lparr>issued := issued s1 @ [Transaction_begin]\<rparr>"
    let ?tx = "updateProductStock_tx env pid wid usr adjustment"
    from short safe st have "stock_quantity (tables ?s0) pid wid + adjustment < 0"
      "safe_integer (stock_quantity (tables ?s0) pid wid + adjustment)"
      by (simp_all add: stock_quantity_def)
    from updateProductStock_tx_insufficient [OF this, of env usr]
    obtain e0 s2 where tx: "?tx ?s0 = (Inl e0, s2)"
      and e0: "faults env (issued s1 @ [Transaction_begin])
                 (Prisma ''productStock'' ''findFirst'') = None
               \<Longrightarrow> e0 = Error ''Insufficient stock for this adjustment''"
      by auto
    obtain e s' where tr: "transaction env ?tx s1 = (Inl e, s')"
      and tb: "tables s' = tables s1"
      and e: "faults env (issued s1) Transaction_begin = None \<Longrightarrow> e = e0"
      using tx
      by (cases "faults env (issued s1) Transaction_begin")
         (simp_all add: transaction_def transaction_with_def ext_def Let_def)
    from tr pre Inr ctx same have
      "updateProductStock_try env userId orgId productId warehouseId adjustment s = (Inl e, s')"
      by (simp add: updateProductStock_try_def bind_def)
    with tb st mv e e0 pre Inr show ?thesis by auto
  qed
qed

lemma updateProductStock_runs:
  assumes pre: "updateProductStock_pre env userId orgId productId warehouseId s
                = (Inr (pid, wid, usr), s1)"
      and nofault: "\<And>h c. faults env (issued s1 @ h) c = None"
      and ok: "0 \<le> stock_quantity (tables s1) pid wid + adjustment"
      and safe: "safe_integer (stock_quantity (tables s1) pid wid + adjustment)"
  shows "fst (updateProductStock_try env userId orgId productId warehouseId adjustment s)
         = Inr ()"
proof -
  let ?s0 = "s1\<lparr>issued := issued s1 @ [Transaction_begin]\<rparr>"
  let ?tx = "updateProductStock_tx env pid wid usr adjustment"
  have ok0: "0 \<le> stock_quantity (tables ?s0) pid wid + adjustment" using ok by simp
  have nf0: "\<And>h c. faults env (issued ?s0 @ h) c = None" using nofault by simp
  have safe0: "safe_integer (stock_quantity (tables ?s0) pid wid + adjustment)"
    using safe by simp
  from updateProductStock_tx_runs [OF ok0 nf0 safe0] obtain s2 where
    tx: "?tx ?s0 = (Inr (), s2)" and nf2: "\<And>h c. faults env (issued s2 @ h) c = None"
    by blast
  have tr: "transaction env ?tx s1 = (Inr (), s2\<lparr>issued := issued s2 @ [Transaction_commit]\<rparr>)"
    using tx nofault [of "[]"] nf2 [of "[]"] by (intro transaction_runs) simp_all
  have "\<And>h c. faults env (issued (s2\<lparr>issued := issued s2 @ [Transaction_commit]\<rparr>) @ h) c = None"
    using nf2 by simp
  from post_runs [OF this, where y = "()" and orgId = orgId and ?p1.0 = "''/inventory''"
      and ?p2.0 = "''/inventory/'' @ productId"]
  obtain s' where
    "bind (invalidateProducts env orgId) (\<lambda>_.
        bind (revalidatePath env ''/inventory'') (\<lambda>_.
        bind (revalidatePath env (''/inventory/'' @ productId)) (\<lambda>_. ret ())))
       (s2\<lparr>issued := issued s2 @ [Transaction_commit]\<rparr>) = (Inr (), s')"
    by blast
  with pre tr show ?thesis
    by (simp add: updateProductStock_try_def bind_def)
qed

text \<open>
  Claim C6. Let \<open>q\<close> be the quantity read for the product in the warehouse, 0 without a
  row, on a stock table whose rows have distinct keys, and let \<open>q\<close>, the adjustment and
  their sum be safe integers. When \<open>q + adjustment < 0\<close> the call of
  \<open>updateProductStock\<close> throws, the stock rows and the ledger are what they were, and the
  error is the one of insufficient stock once \<open>auth()\<close> returns, the call passes its
  validation and the statements before the transaction, and the store lets the
  transaction begin and read the row. When \<open>0 \<le> q + adjustment\<close> and nothing fails from
  the transaction on, the call returns. A call that returns had \<open>0 \<le> q + adjustment\<close>;
  it updated the row, or appended one, so that the quantity read is \<open>q + adjustment\<close>, and
  it appended exactly one ledger row, of type \<open>in\<close> for a positive adjustment and \<open>out\<close>
  otherwise, whose quantity is the absolute value of the adjustment.
\<close>

theorem updateProductStock_adjusts:
  assumes ids: "StringToBigInt productId = Some pid" "StringToBigInt warehouseId = Some wid"
      and key: "distinct (map stock_id (productStocks (tables s)))"
      and range: "safe_integer (stock_quantity (tables s) pid wid)" "safe_integer adjustment"
      and safe: "safe_integer (stock_quantity (tables s) pid wid + adjustment)"
      and run: "updateProductStock env orgId productId warehouseId adjustment s = (res, s')"
  shows "(stock_quantity (tables s) pid wid + adjustment < 0 \<longrightarrow>
            (\<exists>e. res = Inl e
               \<and> (faults env (issued s) Clerk_auth = None
                    \<and> \<not> falsy (auth_userId env) \<and> orgId \<noteq> [] \<and> productId \<noteq> [] \<and> warehouseId \<noteq> []
                    \<and> (\<exists>ctx s1. updateProductStock_pre env (the (auth_userId env)) orgId
                                   productId warehouseId
                                   (s\<lparr>issued := issued s @ [Clerk_auth]\<rparr>) = (Inr ctx, s1)
                          \<and> faults env (issued s1) Transaction_begin = None
                          \<and> faults env (issued s1 @ [Transaction_begin])
                               (Prisma ''productStock'' ''findFirst'') = None)
                  \<longrightarrow> e = Error ''Insufficient stock for this adjustment''))
            \<and> productStocks (tables s') = productStocks (tables s)
            \<and> stockMovements (tables s') = stockMovements (tables s)
            \<and> stock_quantity (tables s') pid wid = stock_quantity (tables s) pid wid)
     \<and> (0 \<le> stock_quantity (tables s) pid wid + adjustment
          \<and> faults env (issued s) Clerk_auth = None
          \<and> \<not> falsy (auth_userId env) \<and> orgId \<noteq> [] \<and> productId \<noteq> [] \<and> warehouseId \<noteq> []
          \<and> (\<exists>ctx s1. updateProductStock_pre env (the (auth_userId env)) orgId
                         productId warehouseId
                         (s\<lparr>issued := issued s @ [Clerk_auth]\<rparr>) = (Inr ctx, s1)
                \<and> (\<forall>h c. faults env (issued s1 @ h) c = None))
        \<longrightarrow> res = Inr ())
     \<and> (res = Inr () \<longrightarrow>
            0 \<le> stock_quantity (tables s) pid wid + adjustment
          \<and> productStocks (tables s')
              = adjust_rows pid wid adjustment (productStocks (tables s))
          \<and> stock_quantity (tables s') pid wid = stock_quantity (tables s) pid wid + adjustment
          \<and> (\<exists>usr. stockMovements (tables s')
                    = stockMovements (tables s) @ [adjustment_movement pid wid usr adjustment])
          \<and> map (\<lambda>m. (movement_product_id m, movement_warehouse_id m, movement_type m,
                       movement_quantity m))
              (drop (length (stockMovements (tables s))) (stockMovements (tables s')))
             = [(pid, wid, if 0 < adjustment then ''in'' else ''out'', \<bar>adjustment\<bar>)])"
proof (intro conjI impI)
  let ?s0 = "s\<lparr>issued := issued s @ [Clerk_auth]\<rparr>"
  assume short: "stock_quantity (tables s) pid wid + adjustment < 0"
  let ?valid = "\<not> falsy (auth_userId env) \<and> orgId \<noteq> [] \<and> productId \<noteq> [] \<and> warehouseId \<noteq> []"
  let ?body = "updateProductStock_try env (the (auth_userId env)) orgId productId warehouseId
                 adjustment"
  have "(\<exists>e. res = Inl e
               \<and> (faults env (issued s) Clerk_auth = None
                    \<and> \<not> falsy (auth_userId env) \<and> orgId \<noteq> [] \<and> productId \<noteq> [] \<and> warehouseId \<noteq> []
                    \<and> (\<exists>ctx s1. updateProductStock_pre env (the (auth_userId env)) orgId
                                   productId warehouseId ?s0 = (Inr ctx, s1)
                          \<and> faults env (issued s1) Transaction_begin = None
                          \<and> faults env (issued s1 @ [Transaction_begin])
                               (Prisma ''productStock'' ''findFirst'') = None)
                  \<longrightarrow> e = Error ''Insufficient stock for this adjustment''))
            \<and> productStocks (tables s') = productStocks (tables s)
            \<and> stockMovements (tables s') = stockMovements (tables s)"
  proof (cases "faults env (issued s) Clerk_auth")
    case (Some e)
    with run show ?thesis by (auto simp: updateProductStock_def bind_auth_fault)
  next
    case None
    note after_auth = bind_auth_ok [OF None]
    show ?thesis
    proof (cases ?valid)
      case False
      with run show ?thesis
        by (auto simp: updateProductStock_def after_auth throw_def split: if_splits)
    next
      case True
      have short0: "stock_quantity (tables ?s0) pid wid + adjustment < 0"
        and safe0: "safe_integer (stock_quantity (tables ?s0) pid wid + adjustment)"
        using short safe by simp_all
      from updateProductStock_try_insufficient
        [OF ids short0 safe0, of env "the (auth_userId env)" orgId]
      obtain e s2 where t: "?body ?s0 = (Inl e, s2)"
        and fr: "productStocks (tables s2) = productStocks (tables s)"
                "stockMovements (tables s2) = stockMovements (tables s)"
        and e: "\<And>ctx s1. updateProductStock_pre env (the (auth_userId env)) orgId productId
                            warehouseId ?s0 = (Inr ctx, s1)
                    \<Longrightarrow> faults env (issued s1) Transaction_begin = None
                    \<Longrightarrow> faults env (issued s1 @ [Transaction_begin])
                         (Prisma ''productStock'' ''findFirst'') = None
                  \<Longrightarrow> e = Error ''Insufficient stock for this adjustment''"
        by fastforce
      let ?e = "case e of Error message \<Rightarrow> e
                | NonError \<Rightarrow> Error ''Failed to update stock. Please try again.''"
      have r: "updateProductStock env orgId productId warehouseId adjustment s = (Inl ?e, s2)"
        using True t
        by (simp add: updateProductStock_def after_auth try_catch_def throw_def
            split: exn.splits)
      have "?e = Error ''Insufficient stock for this adjustment''"
        if "updateProductStock_pre env (the (auth_userId env)) orgId productId warehouseId ?s0
              = (Inr ctx, s1)"
           "faults env (issued s1) Transaction_begin = None"
           "faults env (issued s1 @ [Transaction_begin]) (Prisma ''productStock'' ''findFirst'') = None"
        for ctx s1
        using e [OF that] by simp
      with r run fr show ?thesis by auto
    qed
  qed
  then show "\<exists>e. res = Inl e
               \<and> (faults env (issued s) Clerk_auth = None
                    \<and> \<not> falsy (auth_userId env) \<and> orgId \<noteq> [] \<and> productId \<noteq> [] \<and> warehouseId \<noteq> []
                    \<and> (\<exists>ctx s1. updateProductStock_pre env (the (auth_userId env)) orgId
                                   productId warehouseId ?s0 = (Inr ctx, s1)
                          \<and> faults env (issued s1) Transaction_begin = None
                          \<and> faults env (issued s1 @ [Transaction_begin])
                               (Prisma ''productStock'' ''findFirst'') = None)
                  \<longrightarrow> e = Error ''Insufficient stock for this adjustment'')"
    and "productStocks (tables s') = productStocks (tables s)"
    and "stockMovements (tables s') = stockMovements (tables s)"
    and "stock_quantity (tables s') pid wid = stock_quantity (tables s) pid wid"
    by (simp_all add: stock_quantity_def)
next
  let ?s0 = "s\<lparr>issued := issued s @ [Clerk_auth]\<rparr>"
  assume a: "0 \<le> stock_quantity (tables s) pid wid + adjustment
          \<and> faults env (issued s) Clerk_auth = None
          \<and> \<not> falsy (auth_userId env) \<and> orgId \<noteq> [] \<and> productId \<noteq> [] \<and> warehouseId \<noteq> []
          \<and> (\<exists>ctx s1. updateProductStock_pre env (the (auth_userId env)) orgId
                         productId warehouseId ?s0 = (Inr ctx, s1)
                \<and> (\<forall>h c. faults env (issued s1 @ h) c = None))"
  then obtain ctx s1 where
    pre: "updateProductStock_pre env (the (auth_userId env)) orgId productId warehouseId ?s0
          = (Inr ctx, s1)"
    and nf: "\<And>h c. faults env (issued s1 @ h) c = None"
    by blast
  from a have after_auth: "bind (auth env) f s = f (auth_userId env) ?s0" for f :: "string option \<Rightarrow> unit action"
    by (simp add: bind_auth_ok)
  obtain pid' wid' usr where ctx: "ctx = (pid', wid', usr)" by (cases ctx)
  from pre ctx have pre': "updateProductStock_pre env (the (auth_userId env)) orgId productId
      warehouseId ?s0 = (Inr (pid', wid', usr), s1)" by simp
  from updateProductStock_pre_ids [OF pre'] ids
  have same: "pid' = pid" "wid' = wid" by (simp_all add: BigInt_Inr_iff)
  have "auth_frame ?s0 s1" using preserves_updateProductStock_pre pre by (rule preservesD)
  then have st: "productStocks (tables s1) = productStocks (tables s)"
    by (cases "tables s", cases "tables s1", simp add: auth_frame_def)
  with a safe have "0 \<le> stock_quantity (tables s1) pid wid + adjustment"
    "safe_integer (stock_quantity (tables s1) pid wid + adjustment)"
    by (simp_all add: stock_quantity_def)
  from updateProductStock_runs [OF pre' [unfolded same] nf this]
  have "fst (updateProductStock_try env (the (auth_userId env)) orgId productId warehouseId
               adjustment ?s0) = Inr ()" .
  with a run show "res = Inr ()"
    by (auto simp: updateProductStock_def after_auth try_catch_def split: prod.splits sum.splits)
next
  let ?s0 = "s\<lparr>issued := issued s @ [Clerk_auth]\<rparr>"
  assume "res = Inr ()"
  with run have ok: "updateProductStock env orgId productId warehouseId adjustment s
                     = (Inr (), s')" by simp
  from updateProductStock_success [OF ok] obtain pid' wid' usr s1 s2 where
    pre: "updateProductStock_pre env (the (auth_userId env)) orgId productId warehouseId ?s0
          = (Inr (pid', wid', usr), s1)"
    and tx: "updateProductStock_tx env pid' wid' usr adjustment
                (s1\<lparr>issued := issued s1 @ [Transaction_begin]\<rparr>) = (Inr (), s2)"
    and tb: "tables s' = tables s2"
    by blast
  from updateProductStock_pre_ids [OF pre] ids have same: "pid' = pid" "wid' = wid"
    by (simp_all add: BigInt_Inr_iff)
  have "auth_frame ?s0 s1" using preserves_updateProductStock_pre pre by (rule preservesD)
  then have st: "productStocks (tables s1) = productStocks (tables s)"
    and mv: "stockMovements (tables s1) = stockMovements (tables s)"
    by (cases "tables s", cases "tables s1", simp add: auth_frame_def)+
  have safe1: "safe_integer (stock_quantity
      (tables (s1\<lparr>issued := issued s1 @ [Transaction_begin]\<rparr>)) pid' wid' + adjustment)"
    using safe same st by (simp add: stock_quantity_def)
  from updateProductStock_tx_success [OF tx safe1] same st mv tb
  have nonneg: "0 \<le> stock_quantity (tables s) pid wid + adjustment"
    and rows': "productStocks (tables s')
                = adjust_rows pid wid adjustment (productStocks (tables s))"
    and mv': "stockMovements (tables s')
              = stockMovements (tables s) @ [adjustment_movement pid wid usr adjustment]"
    by (simp_all add: stock_quantity_def)
  have safe': "safe_integer ((case find (is_stock pid wid) (productStocks (tables s)) of
                                  None \<Rightarrow> 0 | Some r \<Rightarrow> quantity r) + adjustment)"
    using safe by (simp add: stock_quantity_def)
  show "0 \<le> stock_quantity (tables s) pid wid + adjustment" by (rule nonneg)
  show "productStocks (tables s') = adjust_rows pid wid adjustment (productStocks (tables s))"
    by (rule rows')
  show "stock_quantity (tables s') pid wid = stock_quantity (tables s) pid wid + adjustment"
    using adjust_rows_quantity [OF key safe'] nonneg
    by (auto simp: stock_quantity_def rows' split: option.splits)
  show "\<exists>usr. stockMovements (tables s')
                = stockMovements (tables s) @ [adjustment_movement pid wid usr adjustment]"
    using mv' by blast
  show "map (\<lambda>m. (movement_product_id m, movement_warehouse_id m, movement_type m,
                       movement_quantity m))
              (drop (length (stockMovements (tables s))) (stockMovements (tables s')))
             = [(pid, wid, if 0 < adjustment then ''in'' else ''out'', \<bar>adjustment\<bar>)]"
    by (simp add: mv' adjustment_movement_def)
qed

subsection \<open>Adjustments on the sample data\<close>

lemmas adjust_defs =
  updateProductStock_def updateProductStock_try_def updateProductStock_pre_def
  updateProductStock_tx_def

lemma sample_adjust:
  "updateProductStock sample_env ''1'' ''1'' ''1'' (- 3) sample_state = (Inr (), sample_adjusted)"
  by (simp add: adjust_defs eval_defs sample_adjusted_def)

lemma sample_adjust_pre:
  "\<exists>ctx s1. updateProductStock_pre sample_env ''user_1'' ''1'' ''1'' ''1''
              (sample_state\<lparr>issued := issued sample_state @ [Clerk_auth]\<rparr>) = (Inr ctx, s1)"
  "\<exists>ctx s1. updateProductStock_pre sample_env ''user_1'' ''1'' ''1'' ''1''
              (sample_adjusted\<lparr>issued := issued sample_adjusted @ [Clerk_auth]\<rparr>)
            = (Inr ctx, s1)"
  by (simp_all add: updateProductStock_pre_def eval_defs sample_adjusted_def)

theorem updateProductStock_adjusts_witness:
  "fst (updateProductStock sample_env ''1'' ''1'' ''1'' (- 3) sample_state) = Inr ()
   \<and> stock_quantity (tables (snd (updateProductStock sample_env ''1'' ''1'' ''1'' (- 3)
        sample_state))) 1 1 = 2
   \<and> map (\<lambda>m. (movement_product_id m, movement_warehouse_id m, movement_type m,
                movement_quantity m))
       (stockMovements (tables (snd (updateProductStock sample_env ''1'' ''1'' ''1'' (- 3)
          sample_state))))
      = [(1, 1, ''out'', 3)]
   \<and> fst (updateProductStock sample_env ''1'' ''1'' ''1'' (- 10) sample_adjusted)
      = Inl (Error ''Insufficient stock for this adjustment'')
   \<and> stock_quantity (tables (snd (updateProductStock sample_env ''1'' ''1'' ''1'' (- 10)
        sample_adjusted))) 1 1 = 2
   \<and> stockMovements (tables (snd (updateProductStock sample_env ''1'' ''1'' ''1'' (- 10)
        sample_adjusted)))
      = stockMovements (tables sample_adjusted)"
proof -
  let ?R = "updateProductStock sample_env ''1'' ''1'' ''1'' (- 3) sample_state"
  let ?F = "updateProductStock sample_env ''1'' ''1'' ''1'' (- 10) sample_adjusted"
  have run: "?R = (fst ?R, snd ?R)" "?F = (fst ?F, snd ?F)" by simp_all
  have key: "distinct (map stock_id (productStocks (tables sample_state)))"
    "distinct (map stock_id (productStocks (tables sample_adjusted)))"
    by (simp_all add: sample_state_def sample_adjusted_def sample_db_def)
  have q: "stock_quantity (tables sample_state) 1 1 = 5"
    "stock_quantity (tables sample_adjusted) 1 1 = 2"
    by (simp_all add: stock_quantity_def sample_state_def sample_adjusted_def sample_db_def
        is_stock_def)
  have range: "safe_integer (stock_quantity (tables sample_state) 1 1)" "safe_integer (- 3)"
    "safe_integer (stock_quantity (tables sample_state) 1 1 + (- 3))"
    "safe_integer (stock_quantity (tables sample_adjusted) 1 1)" "safe_integer (- 10)"
    "safe_integer (stock_quantity (tables sample_adjusted) 1 1 + (- 10))"
    by (simp_all add: q safe_integer_def)
  have nf: "\<And>h c. faults sample_env h c = None" "\<not> falsy (auth_userId sample_env)"
    "the (auth_userId sample_env) = ''user_1''"
    by (simp_all add: sample_env_def falsy_def)
  have mv: "stockMovements (tables sample_state) = []"
    by (simp add: sample_state_def sample_db_def)
  note a = updateProductStock_adjusts
    [OF sample_BigInt_1 sample_BigInt_1 key(1) range(1-3) run(1)]
  note b = updateProductStock_adjusts
    [OF sample_BigInt_1 sample_BigInt_1 key(2) range(4-6) run(2)]
  from a sample_adjust_pre(1) have ok: "fst ?R = Inr ()" by (simp add: q nf)
  with a have "stock_quantity (tables (snd ?R)) 1 1 = 2
    \<and> map (\<lambda>m. (movement_product_id m, movement_warehouse_id m, movement_type m,
                movement_quantity m)) (stockMovements (tables (snd ?R))) = [(1, 1, ''out'', 3)]"
    by (simp add: q mv)
  moreover from b sample_adjust_pre(2)
  have "fst ?F = Inl (Error ''Insufficient stock for this adjustment'')
    \<and> stock_quantity (tables (snd ?F)) 1 1 = 2
    \<and> stockMovements (tables (snd ?F)) = stockMovements (tables sample_adjusted)"
    by (auto simp: q nf)
  ultimately show ?thesis using ok by blast
qed

end
